theory Spec2Isabelle
  imports Main "HOL-Library.AList"
begin

section \<open>Python values, exceptions and tables\<close>

text \<open>
  A cell of a pandas table as the code meets it after \<^verbatim>\<open>pd.read_csv\<close>: a missing
  value (NaN or None, for which \<^verbatim>\<open>notnull()\<close> is false and \<^verbatim>\<open>pd.isna\<close> is true), a number,
  a text, or (after decoding) a list. A number is kept by its integer value: identifiers
  and file ids are integers, which pandas holds as int64 or, in a column that also holds
  NaN, as float64; a float64 with a fractional part is not in the model. The model does
  not carry the dtype of a column. An int64 holds its integer exactly; a float64 holds
  exactly every integer up to \<open>2 ^ 53\<close> in magnitude and rounds a larger one, so where
  pandas may convert a number to float64 the definitions below follow it up to that
  bound only.
\<close>

datatype pyval = PNull | PNum int | PStr string | PList "pyval list"

text \<open>
  Every integer of magnitude up to \<open>2 ^ 53 = 9007199254740992\<close> is a float64, so a
  conversion between int64 and float64 leaves it as it is.
\<close>

definition float64_exact :: "int \<Rightarrow> bool" where
  "float64_exact n = (\<bar>n\<bar> \<le> 9007199254740992)"

text \<open>
  The exception classes the modelled code can raise, by class (messages are dropped).
  \<open>Unmodelled\<close> is no Python exception: it marks an input on which the model does not
  follow Python, and says nothing about what the code does there.
\<close>

datatype exn =
    BehaviorCloudCacheVersionException
  | RuntimeError
  | KeyError
  | ValueError
  | TypeError
  | IndexError
  | AttributeError
  | FileNotFoundError
  | UndefinedVariableError
  | NotImplementedError
  | Unmodelled

text \<open>
  A DataFrame: its row labels and its columns in order, each column a name with one
  cell per row. \<^verbatim>\<open>column in df.columns\<close> is \<open>map_of (df_columns df) column \<noteq> None\<close>.
\<close>

record dataframe =
  df_index :: "pyval list"
  df_columns :: "(string \<times> pyval list) list"

text \<open>
  Every DataFrame is rectangular: each column has one cell per row label. The record
  type does not enforce it, so theorems that speak of the cells of a row assume it.
\<close>

definition rectangular :: "dataframe \<Rightarrow> bool" where
  "rectangular df = (\<forall>cells \<in> snd ` set (df_columns df). length cells = length (df_index df))"

definition notnull :: "pyval \<Rightarrow> bool" where
  "notnull x = (x \<noteq> PNull)"

text \<open>
  A raised exception is a result \<open>Inl e\<close>; \<open>bind_exn m f\<close> runs \<open>f\<close> on the value of \<open>m\<close>
  unless \<open>m\<close> raised.
\<close>

definition bind_exn :: "exn + 'a \<Rightarrow> ('a \<Rightarrow> exn + 'b) \<Rightarrow> exn + 'b" where
  "bind_exn m f = (case m of Inl e \<Rightarrow> Inl e | Inr x \<Rightarrow> f x)"

text \<open>A Python dict is a map; a missing key raises \<^verbatim>\<open>KeyError\<close>.\<close>

type_synonym ('k, 'v) dict = "'k \<rightharpoonup> 'v"

definition getitem :: "('k, 'v) dict \<Rightarrow> 'k \<Rightarrow> exn + 'v" where
  "getitem d k = (case d k of None \<Rightarrow> Inl KeyError | Some v \<Rightarrow> Inr v)"

text \<open>\<^verbatim>\<open>xs[i]\<close> on a list, for an index that is not negative.\<close>

definition list_getitem :: "'a list \<Rightarrow> nat \<Rightarrow> exn + 'a" where
  "list_getitem xs i = (if i < length xs then Inr (xs ! i) else Inl IndexError)"

section \<open>Decoding literal columns\<close>

subsection \<open>A fragment of \<^verbatim>\<open>ast.literal_eval\<close>\<close>

text \<open>
  \<^verbatim>\<open>ast.literal_eval\<close> belongs to Python's standard library. \<open>literal_col_eval\<close> below
  takes the decoder as a parameter, and what is proved about it holds for any decoder.
  For concrete tables the decoder is \<open>literal_eval\<close>, which covers a small fragment of
  Python's literals: non-negative decimal integers of at most 18 digits, texts in single
  or double quotes made of printable ASCII characters without backslash, and lists of
  these in square brackets (nested at most 8 deep, a trailing comma allowed), with blanks
  between tokens. On a text of the fragment the value is the one Python computes. Any
  other text gives \<open>Inl Unmodelled\<close>: Python rejects some of them and accepts others
  (floats, signs, tuples, dicts, escapes, adjacent texts).
\<close>

datatype token = TLBrack | TRBrack | TComma | TInt int | TStr string

datatype lexmode = Idle | InInt string | InStr char string

definition is_digit :: "char \<Rightarrow> bool" where
  "is_digit c = (48 \<le> (of_char c :: int) \<and> (of_char c :: int) \<le> 57)"

definition digit_val :: "char \<Rightarrow> int" where
  "digit_val c = of_char c - 48"

definition int_of_digits :: "string \<Rightarrow> int" where
  "int_of_digits ds = foldl (\<lambda>n c. 10 * n + digit_val c) 0 ds"

text \<open>
  A decimal integer literal: digits with no leading zero, unless all of them are zero.
\<close>

definition int_token :: "string \<Rightarrow> token option" where
  "int_token ds =
     (if ds = [] \<or> 18 < length ds then None
      else if hd ds = CHR ''0'' \<and> (\<exists>c \<in> set ds. c \<noteq> CHR ''0'') then None
      else Some (TInt (int_of_digits ds)))"

definition is_printable :: "char \<Rightarrow> bool" where
  "is_printable c = (32 \<le> (of_char c :: int) \<and> (of_char c :: int) \<le> 126)"

text \<open>What the lexer does with a character that starts a token.\<close>

definition start :: "char \<Rightarrow> (token list \<times> lexmode) option" where
  "start c =
     (if c = CHR '' '' then Some ([], Idle)
      else if c = CHR ''['' then Some ([TLBrack], Idle)
      else if c = CHR '']'' then Some ([TRBrack], Idle)
      else if c = CHR '','' then Some ([TComma], Idle)
      else if is_digit c then Some ([], InInt [c])
      else if c = CHR 0x27 \<or> c = CHR 0x22 then Some ([], InStr c [])
      else None)"

fun lex :: "lexmode \<Rightarrow> string \<Rightarrow> token list option" where
  "lex Idle [] = Some []"
| "lex (InInt ds) [] = map_option (\<lambda>t. [t]) (int_token (rev ds))"
| "lex (InStr q acc) [] = None"
| "lex Idle (c # cs) =
     (case start c of
        None \<Rightarrow> None
      | Some (ts, m) \<Rightarrow> map_option (\<lambda>r. ts @ r) (lex m cs))"
| "lex (InInt ds) (c # cs) =
     (if is_digit c then lex (InInt (c # ds)) cs
      else (case int_token (rev ds) of
              None \<Rightarrow> None
            | Some t \<Rightarrow>
                (case start c of
                   None \<Rightarrow> None
                 | Some (ts, m) \<Rightarrow> map_option (\<lambda>r. t # ts @ r) (lex m cs))))"
| "lex (InStr q acc) (c # cs) =
     (if c = q then map_option (\<lambda>r. TStr (rev acc) # r) (lex Idle cs)
      else if c = CHR 0x5C \<or> \<not> is_printable c then None
      else lex (InStr q (c # acc)) cs)"

text \<open>
  The parser is a pushdown automaton over the tokens. \<open>Open items outer after\<close>: inside
  a list whose items so far are \<open>items\<close> (last first), itself inside the lists \<open>outer\<close>;
  \<open>after\<close> tells that an item has just ended, so that a comma or the closing bracket
  comes next.
\<close>

datatype pstate = Start | Open "pyval list" "pyval list list" bool | Done pyval

definition max_depth :: nat where
  "max_depth = 8"

fun close_value :: "pyval \<Rightarrow> pyval list list \<Rightarrow> pstate" where
  "close_value v [] = Done v"
| "close_value v (items # outer) = Open (v # items) outer True"

fun pstep :: "pstate \<Rightarrow> token \<Rightarrow> pstate option" where
  "pstep Start (TInt n) = Some (Done (PNum n))"
| "pstep Start (TStr s) = Some (Done (PStr s))"
| "pstep Start TLBrack = Some (Open [] [] False)"
| "pstep Start TRBrack = None"
| "pstep Start TComma = None"
| "pstep (Done v) t = None"
| "pstep (Open items outer after) TLBrack =
     (if after \<or> max_depth \<le> Suc (length outer) then None
      else Some (Open [] (items # outer) False))"
| "pstep (Open items outer after) (TInt n) =
     (if after then None else Some (Open (PNum n # items) outer True))"
| "pstep (Open items outer after) (TStr s) =
     (if after then None else Some (Open (PStr s # items) outer True))"
| "pstep (Open items outer after) TComma =
     (if after then Some (Open items outer False) else None)"
| "pstep (Open items outer after) TRBrack = Some (close_value (PList (rev items)) outer)"

fun run :: "pstate \<Rightarrow> token list \<Rightarrow> pyval option" where
  "run s [] = (case s of Done v \<Rightarrow> Some v | _ \<Rightarrow> None)"
| "run s (t # ts) = (case pstep s t of None \<Rightarrow> None | Some s' \<Rightarrow> run s' ts)"

definition parse_literal :: "string \<Rightarrow> pyval option" where
  "parse_literal s = (case lex Idle s of None \<Rightarrow> None | Some ts \<Rightarrow> run Start ts)"

definition literal_eval :: "string \<Rightarrow> exn + pyval" where
  "literal_eval s = (case parse_literal s of None \<Rightarrow> Inl Unmodelled | Some v \<Rightarrow> Inr v)"

subsection \<open>\<^verbatim>\<open>literal_col_eval\<close>\<close>

text \<open>
  \<^verbatim>\<open>converter\<close>: a text is decoded, anything else is returned as it is. The first
  argument is the decoder, \<^verbatim>\<open>ast.literal_eval\<close> in the source.
\<close>

definition converter :: "(string \<Rightarrow> exn + pyval) \<Rightarrow> pyval \<Rightarrow> exn + pyval" where
  "converter decode x = (case x of PStr s \<Rightarrow> decode s | _ \<Rightarrow> Inr x)"

text \<open>
  One column of the loop's body:
  \<^verbatim>\<open>df.loc[df[column].notnull(), column] = df[column][df[column].notnull()].apply(converter)\<close>.
  The cells for which \<^verbatim>\<open>notnull()\<close> holds are converted in row order and written back
  at their own rows (the selected rows and the converted series carry the same labels,
  so pandas assigns them by position); the other cells stay. The first exception of the
  converter ends the whole call.
\<close>

fun apply_notnull :: "(pyval \<Rightarrow> exn + pyval) \<Rightarrow> pyval list \<Rightarrow> exn + pyval list" where
  "apply_notnull f [] = Inr []"
| "apply_notnull f (x # xs) =
     (if notnull x then
        (case f x of
           Inl e \<Rightarrow> Inl e
         | Inr y \<Rightarrow> (case apply_notnull f xs of Inl e \<Rightarrow> Inl e | Inr ys \<Rightarrow> Inr (y # ys)))
      else (case apply_notnull f xs of Inl e \<Rightarrow> Inl e | Inr ys \<Rightarrow> Inr (x # ys)))"

text \<open>The default of the parameter \<^verbatim>\<open>columns\<close>.\<close>

definition structured_columns :: "string list" where
  "structured_columns = [''ophys_experiment_id'', ''ophys_container_id'', ''driver_line'']"

fun literal_col_eval ::
  "(string \<Rightarrow> exn + pyval) \<Rightarrow> string list \<Rightarrow> dataframe \<Rightarrow> exn + dataframe" where
  "literal_col_eval decode [] df = Inr df"
| "literal_col_eval decode (column # columns) df =
     (case map_of (df_columns df) column of
        None \<Rightarrow> literal_col_eval decode columns df
      | Some cells \<Rightarrow>
          (case apply_notnull (converter decode) cells of
             Inl e \<Rightarrow> Inl e
           | Inr cells' \<Rightarrow>
               literal_col_eval decode columns
                 (df\<lparr>df_columns := AList.update column cells' (df_columns df)\<rparr>)))"

section \<open>The version check\<close>

subsection \<open>A fragment of \<^verbatim>\<open>semver.VersionInfo\<close>\<close>

text \<open>
  \<^verbatim>\<open>semver\<close> is a third-party library. \<open>version_check\<close> below takes its two operations
  as parameters: \<^verbatim>\<open>VersionInfo.parse\<close>, and \<^verbatim>\<open>VersionInfo.compare\<close>, which gives a negative
  number, zero or a positive number as the first version is older than, equal to or newer
  than the second. For concrete versions they are \<open>VersionInfo_parse\<close> and
  \<open>VersionInfo_compare\<close>, which cover the versions \<^verbatim>\<open>major.minor.patch\<close> with neither
  prerelease nor build part, each number of at most 18 digits without a leading zero.
  Any other text gives \<open>Inl Unmodelled\<close>: \<^verbatim>\<open>parse\<close> raises \<^verbatim>\<open>ValueError\<close> for a text that is
  no version, and accepts the versions with a prerelease or build part.
\<close>

record VersionInfo =
  major :: int
  minor :: int
  patch :: int

fun split_dots :: "string \<Rightarrow> string list" where
  "split_dots [] = [[]]"
| "split_dots (c # cs) =
     (if c = CHR ''.'' then [] # split_dots cs
      else (case split_dots cs of [] \<Rightarrow> [[c]] | w # ws \<Rightarrow> (c # w) # ws))"

definition numeric_id :: "string \<Rightarrow> int option" where
  "numeric_id ds =
     (if ds = [] \<or> 18 < length ds then None
      else if \<exists>c \<in> set ds. \<not> is_digit c then None
      else if hd ds = CHR ''0'' \<and> length ds \<noteq> 1 then None
      else Some (int_of_digits ds))"

definition VersionInfo_parse :: "string \<Rightarrow> exn + VersionInfo" where
  "VersionInfo_parse s =
     (case map numeric_id (split_dots s) of
        [Some a, Some b, Some c] \<Rightarrow> Inr \<lparr>major = a, minor = b, patch = c\<rparr>
      | _ \<Rightarrow> Inl Unmodelled)"

text \<open>\<^verbatim>\<open>cmp(a, b)\<close> of the library: \<^verbatim>\<open>(a > b) - (a < b)\<close>.\<close>

definition cmp :: "int \<Rightarrow> int \<Rightarrow> int" where
  "cmp a b = (if a < b then - 1 else if a = b then 0 else 1)"

text \<open>
  \<^verbatim>\<open>compare\<close> orders the triples \<^verbatim>\<open>(major, minor, patch)\<close> as Python orders tuples, and
  looks at the prerelease parts only when the triples are equal; here there is none.
\<close>

definition VersionInfo_compare :: "VersionInfo \<Rightarrow> VersionInfo \<Rightarrow> int" where
  "VersionInfo_compare v w =
     (if major v \<noteq> major w then cmp (major v) (major w)
      else if minor v \<noteq> minor w then cmp (minor v) (minor w)
      else cmp (patch v) (patch w))"

subsection \<open>\<^verbatim>\<open>version_check\<close>\<close>

text \<open>
  \<^verbatim>\<open>COMPATIBILITY\<close>: for a pipeline version, the least client version accepted and the
  first one refused.
\<close>

definition COMPATIBILITY :: "(string, (string, (string, string list) dict) dict) dict" where
  "COMPATIBILITY =
     [''pipeline_versions'' \<mapsto>
        [''2.9.0'' \<mapsto> [''AllenSDK'' \<mapsto> [''2.9.0'', ''3.0.0'']],
         ''2.10.0'' \<mapsto> [''AllenSDK'' \<mapsto> [''2.9.0'', ''3.0.0'']]]]"

text \<open>
  \<^verbatim>\<open>[i for i in pipeline_versions if "AllenSDK" == i["name"]]\<close>: an entry without the key
  \<^verbatim>\<open>name\<close> raises \<^verbatim>\<open>KeyError\<close>.
\<close>

fun allensdk_entries :: "(string, string) dict list \<Rightarrow> exn + (string, string) dict list" where
  "allensdk_entries [] = Inr []"
| "allensdk_entries (i # rest) =
     (case i ''name'' of
        None \<Rightarrow> Inl KeyError
      | Some n \<Rightarrow>
          (case allensdk_entries rest of
             Inl e \<Rightarrow> Inl e
           | Inr found \<Rightarrow> Inr (if ''AllenSDK'' = n then i # found else found)))"

text \<open>
  \<open>version_check parse compare pipeline_versions sdk_version compatibility\<close>. The running
  version \<^verbatim>\<open>sdk_version\<close> is a text and the limits are parsed versions, so that
  \<^verbatim>\<open>sdk_version < smin\<close> is answered by the limit: it is \<^verbatim>\<open>smin.compare(sdk_version) > 0\<close>,
  and \<^verbatim>\<open>sdk_version >= smax\<close> is \<^verbatim>\<open>smax.compare(sdk_version) <= 0\<close>, where \<^verbatim>\<open>compare\<close> parses
  its argument. Both comparisons are evaluated (the operator is \<^verbatim>\<open>|\<close>).
\<close>

definition version_check ::
  "(string \<Rightarrow> exn + 'v) \<Rightarrow> ('v \<Rightarrow> 'v \<Rightarrow> int) \<Rightarrow> (string, string) dict list \<Rightarrow> string \<Rightarrow>
   (string, (string, (string, string list) dict) dict) dict \<Rightarrow> exn + unit" where
  "version_check parse compare pipeline_versions sdk_version compatibility =
     bind_exn (allensdk_entries pipeline_versions) (\<lambda>pipeline_version.
       if length pipeline_version \<noteq> 1 then Inl BehaviorCloudCacheVersionException
       else
         bind_exn (getitem (hd pipeline_version) ''version'') (\<lambda>pv.
         bind_exn (getitem compatibility ''pipeline_versions'') (\<lambda>registered.
           case registered pv of
             None \<Rightarrow> Inl BehaviorCloudCacheVersionException
           | Some version_limits \<Rightarrow>
               bind_exn (getitem version_limits ''AllenSDK'') (\<lambda>limits.
               bind_exn (list_getitem limits 0) (\<lambda>lo.
               bind_exn (parse lo) (\<lambda>smin.
               bind_exn (getitem version_limits ''AllenSDK'') (\<lambda>limits.
               bind_exn (list_getitem limits 1) (\<lambda>hi.
               bind_exn (parse hi) (\<lambda>smax.
               bind_exn (parse sdk_version) (\<lambda>running.
                 if 0 < compare smin running \<or> compare smax running \<le> 0
                 then Inl BehaviorCloudCacheVersionException
                 else Inr ()))))))))))"

section \<open>The cloud API object\<close>

text \<open>
  \<^verbatim>\<open>S3CloudCache\<close> lives in another module of the repository. The object is taken by what
  the modelled code reads of it: the manifest's \<^verbatim>\<open>metadata_file_names\<close> (None before
  \<^verbatim>\<open>load_manifest()\<close>) and \<^verbatim>\<open>_data_pipeline\<close>, the name \<^verbatim>\<open>file_id_column\<close>, and its two
  methods, which give a local path or raise.
\<close>

record S3CloudCache =
  metadata_file_names :: "string list option"
  data_pipeline :: "(string, string) dict list"
  file_id_column :: string
  download_metadata :: "string \<Rightarrow> exn + string"
  download_data :: "string \<Rightarrow> exn + string"

text \<open>What the constructor does, in order, as far as the cache and the tables go.\<close>

datatype event =
    VersionCheck "exn + unit"
  | DownloadMetadata string
  | ReadCsv string


record BehaviorProjectCloudApi =
  cache :: S3CloudCache
  session_table :: dataframe
  behavior_only_session_table :: dataframe
  experiment_table :: dataframe

definition expected_metadata :: "string set" where
  "expected_metadata =
     {''behavior_session_table'', ''ophys_session_table'', ''ophys_experiment_table''}"

text \<open>
  The body shared by \<^verbatim>\<open>_get_session_table\<close>, \<^verbatim>\<open>_get_behavior_only_session_table\<close> and
  \<^verbatim>\<open>_get_experiment_table\<close>:
  \<^verbatim>\<open>literal_col_eval(pd.read_csv(self.cache.download_metadata(name)))\<close>, with the events
  appended to the trace so far. \<open>read_csv\<close> stands for \<^verbatim>\<open>pd.read_csv\<close>.
\<close>

definition get_table ::
  "(string \<Rightarrow> exn + pyval) \<Rightarrow> (string \<Rightarrow> exn + dataframe) \<Rightarrow> S3CloudCache \<Rightarrow> string \<Rightarrow>
   event list \<Rightarrow> event list \<times> (exn + dataframe)" where
  "get_table decode read_csv c name tr =
     (case download_metadata c name of
        Inl e \<Rightarrow> (tr @ [DownloadMetadata name], Inl e)
      | Inr path \<Rightarrow>
          (tr @ [DownloadMetadata name, ReadCsv path],
           bind_exn (read_csv path) (literal_col_eval decode structured_columns)))"

text \<open>
  \<^verbatim>\<open>BehaviorProjectCloudApi.__init__(cache, skip_version_check=False)\<close>. The flag is
  \<open>None\<close> when the caller leaves it out. \<open>sdk_version\<close> is \<^verbatim>\<open>allensdk.__version__\<close>, the
  default of \<open>version_check\<close>, as \<open>COMPATIBILITY\<close> is. The result is the trace of events with
  the object built, or the exception that ended the construction.
\<close>

definition init ::
  "(string \<Rightarrow> exn + 'v) \<Rightarrow> ('v \<Rightarrow> 'v \<Rightarrow> int) \<Rightarrow> string \<Rightarrow> (string \<Rightarrow> exn + pyval) \<Rightarrow>
   (string \<Rightarrow> exn + dataframe) \<Rightarrow> S3CloudCache \<Rightarrow> bool option \<Rightarrow>
   event list \<times> (exn + BehaviorProjectCloudApi)" where
  "init parse compare sdk_version decode read_csv c skip_version_check =
     (case metadata_file_names c of
        None \<Rightarrow> ([], Inl RuntimeError)
      | Some names \<Rightarrow>
          if set names \<noteq> expected_metadata then ([], Inl RuntimeError)
          else
            let checked =
              (if \<not> (case skip_version_check of None \<Rightarrow> False | Some b \<Rightarrow> b)
               then [VersionCheck
                       (version_check parse compare (data_pipeline c) sdk_version COMPATIBILITY)]
               else [])
            in
              (case checked of
                 [VersionCheck (Inl e)] \<Rightarrow> (checked, Inl e)
               | _ \<Rightarrow>
                   (case get_table decode read_csv c ''ophys_session_table'' checked of
                      (tr1, Inl e) \<Rightarrow> (tr1, Inl e)
                    | (tr1, Inr st) \<Rightarrow>
                        (case get_table decode read_csv c ''behavior_session_table'' tr1 of
                           (tr2, Inl e) \<Rightarrow> (tr2, Inl e)
                         | (tr2, Inr bt) \<Rightarrow>
                             (case get_table decode read_csv c ''ophys_experiment_table'' tr2 of
                                (tr3, Inl e) \<Rightarrow> (tr3, Inl e)
                              | (tr3, Inr et) \<Rightarrow>
                                  (tr3, Inr \<lparr>cache = c, session_table = st,
                                              behavior_only_session_table = bt,
                                              experiment_table = et\<rparr>))))))"


section \<open>Resolving a record to its file\<close>

subsection \<open>The pandas operations used\<close>

text \<open>Boolean-mask selection, \<^verbatim>\<open>xs[mask]\<close>: the elements at which the mask is true.\<close>

definition filter_mask :: "bool list \<Rightarrow> 'a list \<Rightarrow> 'a list" where
  "filter_mask keep xs = map snd (filter fst (zip keep xs))"

definition take_rows :: "bool list \<Rightarrow> dataframe \<Rightarrow> dataframe" where
  "take_rows keep df =
     \<lparr>df_index = filter_mask keep (df_index df),
      df_columns = map (\<lambda>(name, cells). (name, filter_mask keep cells)) (df_columns df)\<rparr>"

text \<open>
  \<^verbatim>\<open>df.query(f"{column}=={v}")\<close> for an integer \<open>v\<close>: the rows whose cell in the column is
  the number \<open>v\<close>; a name that is no column is undefined in the expression. The cells of
  a float64 column are compared with \<open>v\<close> converted to float64, which is \<open>v\<close> itself when
  \<open>v\<close> is \<open>float64_exact\<close>; for a larger \<open>v\<close> the rows found depend on the dtype of the
  column, and the query is not followed.
\<close>

definition query_eq :: "dataframe \<Rightarrow> string \<Rightarrow> int \<Rightarrow> exn + dataframe" where
  "query_eq df column v =
     (case map_of (df_columns df) column of
        None \<Rightarrow> Inl UndefinedVariableError
      | Some cells \<Rightarrow>
          if float64_exact v then Inr (take_rows (map (\<lambda>x. x = PNum v) cells) df)
          else Inl Unmodelled)"

text \<open>\<^verbatim>\<open>row.shape[0]\<close>, the number of rows.\<close>

definition shape0 :: "dataframe \<Rightarrow> nat" where
  "shape0 df = length (df_index df)"

text \<open>
  What \<^verbatim>\<open>squeeze()\<close> and the subscripts after it can give: a single cell, a Series (its
  labels with its values) or a DataFrame.
\<close>

datatype pyobj = Val pyval | Series "(pyval \<times> pyval) list" | Frame dataframe

definition first_cell :: "pyval list \<Rightarrow> pyval" where
  "first_cell cells = (case cells of [] \<Rightarrow> PNull | x # _ \<Rightarrow> x)"

text \<open>
  A row taken out of a table is a Series with one dtype for all its cells. When one of
  the cells is a text or a list, its column has the dtype object, so has the row, and
  every cell is kept as it is. A row of numbers and NaN only may be converted to
  float64 (it is when one column is int64 and another float64), which keeps every number
  that is \<open>float64_exact\<close> and rounds a larger one. Whether it is converted depends on the
  dtypes of the columns, which the model does not carry: \<open>row_followed\<close> holds of the
  rows whose cells are the same in either case.
\<close>

definition is_object :: "pyval \<Rightarrow> bool" where
  "is_object x = (case x of PStr s \<Rightarrow> True | PList l \<Rightarrow> True | _ \<Rightarrow> False)"

definition exact_cell :: "pyval \<Rightarrow> bool" where
  "exact_cell x = (case x of PNum n \<Rightarrow> float64_exact n | _ \<Rightarrow> True)"

definition row_followed :: "pyval list \<Rightarrow> bool" where
  "row_followed cells = (list_ex is_object cells \<or> list_all exact_cell cells)"

text \<open>
  \<^verbatim>\<open>DataFrame.squeeze()\<close> drops every axis of length one: one row and one column give the
  cell, one row gives the row as a Series labelled by the column names, one column gives
  the column as a Series labelled by the row labels, and anything else stays a DataFrame.
  A single row that is not \<open>row_followed\<close> is not followed: pandas may have rounded its
  numbers.
\<close>

definition squeeze :: "dataframe \<Rightarrow> exn + pyobj" where
  "squeeze df =
     (if length (df_index df) = 1 then
        (if length (df_columns df) = 1 then Inr (Val (first_cell (snd (hd (df_columns df)))))
         else if row_followed (map (\<lambda>(name, cells). first_cell cells) (df_columns df))
           then Inr (Series (map (\<lambda>(name, cells). (PStr name, first_cell cells))
                               (df_columns df)))
         else Inl Unmodelled)
      else if length (df_columns df) = 1
        then Inr (Series (zip (df_index df) (snd (hd (df_columns df)))))
      else Inr (Frame df))"

text \<open>The cells of the row at position \<open>i\<close> of a table, in the order of its columns.\<close>

definition row_at :: "dataframe \<Rightarrow> nat \<Rightarrow> pyval list" where
  "row_at df i = map (\<lambda>(name, cells). cells ! i) (df_columns df)"

text \<open>
  \<^verbatim>\<open>row[key]\<close> for a text key. A Series is looked up by label, a DataFrame gives the
  column, a text or a list raises \<^verbatim>\<open>TypeError\<close>. A number or NaN cannot be subscripted
  either: the call raises \<^verbatim>\<open>IndexError\<close> on a numpy scalar and \<^verbatim>\<open>TypeError\<close> on a Python
  number, and which of the two the cell is depends on the dtype of its column, so the
  class of the exception is not followed.
\<close>

definition obj_getitem :: "pyobj \<Rightarrow> string \<Rightarrow> exn + pyobj" where
  "obj_getitem row key =
     (case row of
        Val (PNum n) \<Rightarrow> Inl Unmodelled
      | Val PNull \<Rightarrow> Inl Unmodelled
      | Val v \<Rightarrow> Inl TypeError
      | Series s \<Rightarrow>
          (case map_of s (PStr key) of None \<Rightarrow> Inl KeyError | Some v \<Rightarrow> Inr (Val v))
      | Frame df \<Rightarrow>
          (case map_of (df_columns df) key of
             None \<Rightarrow> Inl KeyError
           | Some cells \<Rightarrow> Inr (Series (zip (df_index df) cells))))"

text \<open>\<^verbatim>\<open>row.ophys_experiment_id\<close>: attribute access reads the label of a Series.\<close>

definition obj_getattr :: "pyobj \<Rightarrow> string \<Rightarrow> exn + pyval" where
  "obj_getattr row name =
     (case row of
        Series s \<Rightarrow> (case map_of s (PStr name) of None \<Rightarrow> Inl AttributeError | Some v \<Rightarrow> Inr v)
      | _ \<Rightarrow> Inl AttributeError)"

text \<open>
  \<^verbatim>\<open>pd.isna(x)\<close> on the cell read from the file-id column. That column is none of the
  decoded ones, so after \<^verbatim>\<open>read_csv\<close> its cells are NaN, numbers or texts; a list or a
  Series there is not followed.
\<close>

definition isna :: "pyobj \<Rightarrow> exn + bool" where
  "isna x =
     (case x of
        Val PNull \<Rightarrow> Inr True
      | Val (PNum n) \<Rightarrow> Inr False
      | Val (PStr s) \<Rightarrow> Inr False
      | _ \<Rightarrow> Inl Unmodelled)"

text \<open>
  \<^verbatim>\<open>x[0]\<close> on the cell of experiment references: the first element of a list, and
  \<^verbatim>\<open>IndexError\<close> on the empty list. A number or NaN cannot be subscripted: the call raises
  \<^verbatim>\<open>IndexError\<close> when the cell is a numpy scalar (from an int64 or float64 column) and
  \<^verbatim>\<open>TypeError\<close> when it is a Python number (from an object column); the model does not
  carry the dtype of the column, so which of the two is not followed. Nor is the first
  character of a text.
\<close>

definition first_listed :: "pyval \<Rightarrow> exn + pyval" where
  "first_listed x =
     (case x of
        PList [] \<Rightarrow> Inl IndexError
      | PList (y # _) \<Rightarrow> Inr y
      | _ \<Rightarrow> Inl Unmodelled)"

text \<open>
  The query \<^verbatim>\<open>f"ophys_experiment_id=={oeid}"\<close>. The model follows it for a number; for
  another value the formatted text is an expression of its own, which is not followed.
\<close>

definition query_ref :: "dataframe \<Rightarrow> string \<Rightarrow> pyval \<Rightarrow> exn + dataframe" where
  "query_ref df column oeid =
     (case oeid of PNum n \<Rightarrow> query_eq df column n | _ \<Rightarrow> Inl Unmodelled)"

text \<open>
  \<^verbatim>\<open>int(s)\<close> for a text: blanks around it are dropped, then an optional sign and at
  least one decimal digit must be all there is (leading zeros are accepted); anything
  else raises \<^verbatim>\<open>ValueError\<close>. The model follows texts of printable ASCII characters
  without underscore, of at most 4000 characters: Python also accepts other white space
  and digits of Unicode and underscores between digits, and limits the number of digits.
\<close>

definition py_strip :: "string \<Rightarrow> string" where
  "py_strip s =
     rev (dropWhile (\<lambda>c. c = CHR '' '') (rev (dropWhile (\<lambda>c. c = CHR '' '') s)))"

definition int_of_text :: "string \<Rightarrow> exn + int" where
  "int_of_text s =
     (if list_ex (\<lambda>c. \<not> is_printable c \<or> c = CHR ''_'') s \<or> 4000 < int (length s)
        then Inl Unmodelled
      else
        (let t = py_strip s;
             negative = (t \<noteq> [] \<and> hd t = CHR ''-'');
             digits = (if t \<noteq> [] \<and> (hd t = CHR ''-'' \<or> hd t = CHR ''+'') then tl t else t)
         in if digits \<noteq> [] \<and> list_all is_digit digits
              then Inr (if negative then - int_of_digits digits else int_of_digits digits)
            else Inl ValueError))"

text \<open>
  \<^verbatim>\<open>int(x)\<close>: NaN raises \<^verbatim>\<open>ValueError\<close>, a number gives its integer, a text is parsed, a
  Series converts only when it has one element, a list or DataFrame raises
  \<^verbatim>\<open>TypeError\<close>.
\<close>

definition py_int :: "pyobj \<Rightarrow> exn + int" where
  "py_int x =
     (case x of
        Val PNull \<Rightarrow> Inl ValueError
      | Val (PNum n) \<Rightarrow> Inr n
      | Val (PStr s) \<Rightarrow> int_of_text s
      | Val (PList l) \<Rightarrow> Inl TypeError
      | Series [(l, PNull)] \<Rightarrow> Inl ValueError
      | Series [(l, PNum n)] \<Rightarrow> Inr n
      | Series [(l, PStr s)] \<Rightarrow> int_of_text s
      | Series s \<Rightarrow> Inl TypeError
      | Frame df \<Rightarrow> Inl TypeError)"

text \<open>\<^verbatim>\<open>str(n)\<close> of an integer: its decimal digits, with a minus sign if negative.\<close>

function str_pos :: "int \<Rightarrow> string" where
  "str_pos n =
     (if n < 10 then [char_of (48 + n)]
      else str_pos (n div 10) @ [char_of (48 + n mod 10)])"
  by pat_completeness auto
termination
  by (relation "measure nat") auto

definition py_str :: "int \<Rightarrow> string" where
  "py_str n = (if n < 0 then CHR ''-'' # str_pos (- n) else str_pos n)"

subsection \<open>\<^verbatim>\<open>get_behavior_session\<close> and \<^verbatim>\<open>get_behavior_ophys_experiment\<close>\<close>

text \<open>
  \<open>from_nwb_path\<close> stands for \<^verbatim>\<open>BehaviorSession.from_nwb_path\<close>, which opens the file at
  the path the cache returns.
\<close>

definition get_behavior_session ::
  "(string \<Rightarrow> exn + 's) \<Rightarrow> BehaviorProjectCloudApi \<Rightarrow> int \<Rightarrow> exn + 's" where
  "get_behavior_session from_nwb_path self behavior_session_id =
     bind_exn (query_eq (behavior_only_session_table self)
                 ''behavior_session_id'' behavior_session_id) (\<lambda>row.
       if shape0 row \<noteq> 1 then Inl RuntimeError
       else
         bind_exn (squeeze row) (\<lambda>row.
         bind_exn (obj_getitem row (file_id_column (cache self))) (\<lambda>file_id.
         bind_exn (isna file_id) (\<lambda>missing.
         let has_file_id = \<not> missing in
         bind_exn
           (if \<not> has_file_id then
              bind_exn (obj_getattr row ''ophys_experiment_id'') (\<lambda>listed.
              bind_exn (first_listed listed) (\<lambda>oeid.
              bind_exn (query_ref (experiment_table self) ''ophys_experiment_id'' oeid)
                (\<lambda>found. squeeze found)))
            else Inr row) (\<lambda>row.
         bind_exn (obj_getitem row (file_id_column (cache self))) (\<lambda>file_id.
         bind_exn (py_int file_id) (\<lambda>n.
         bind_exn (download_data (cache self) (py_str n)) (\<lambda>data_path.
           from_nwb_path data_path))))))))"

text \<open>\<open>from_nwb_path\<close> stands for \<^verbatim>\<open>BehaviorOphysExperiment.from_nwb_path\<close>.\<close>

definition get_behavior_ophys_experiment ::
  "(string \<Rightarrow> exn + 's) \<Rightarrow> BehaviorProjectCloudApi \<Rightarrow> int \<Rightarrow> exn + 's" where
  "get_behavior_ophys_experiment from_nwb_path self ophys_experiment_id =
     bind_exn (query_eq (experiment_table self)
                 ''ophys_experiment_id'' ophys_experiment_id) (\<lambda>row.
       if shape0 row \<noteq> 1 then Inl RuntimeError
       else
         bind_exn (squeeze row) (\<lambda>row.
         bind_exn (obj_getitem row (file_id_column (cache self))) (\<lambda>file_id.
         bind_exn (py_int file_id) (\<lambda>n.
         bind_exn (download_data (cache self) (py_str n)) (\<lambda>data_path.
           from_nwb_path data_path)))))"

section \<open>The local artifact cache\<close>

text \<open>
  Modelled from the spec: \<^verbatim>\<open>S3CloudCache.download_data\<close>, the cache download that
  \<open>get_behavior_session\<close> calls, is not among the source files. The definitions of this
  section follow the spec's LocalArtifactCache: a cache entry maps a file identifier to
  a local path, with the digest that detects a corrupt or partial file; \<^verbatim>\<open>get(file_id)\<close>
  returns the existing path of a verified entry with no network access, downloads on a
  miss, verifies, and installs the file only when it is complete; a cached entry that
  fails verification is invalidated and downloaded again once; a failed fetch is a
  \<^verbatim>\<open>DownloadError\<close>, a second failed verification a \<^verbatim>\<open>CorruptCacheError\<close>.
\<close>

text \<open>
  Modelled from the spec: the two errors of \<^verbatim>\<open>get\<close>, a failed remote fetch and a cached
  entry (or its replacement) that fails verification.
\<close>

datatype cache_error = DownloadError | CorruptCacheError

text \<open>
  Modelled from the spec: a CacheEntry, the local path of a file identifier with the
  digest recorded when the file was installed.
\<close>

record CacheEntry =
  entry_path :: string
  entry_digest :: nat

text \<open>
  Modelled from the spec: the state of the cache directory. \<open>entries\<close> are the cache
  entries by file identifier, \<open>files\<close> the contents of the local paths, \<open>downloads\<close> the
  number of network downloads made so far.
\<close>

record LocalArtifactCache =
  entries :: "(string, CacheEntry) dict"
  files :: "(string, string) dict"
  downloads :: nat

text \<open>
  Modelled from the spec: what the manifest fixes for a session. \<open>artifact_path\<close> is the
  local path at which a file identifier is installed, \<open>artifact_digest\<close> the digest of its
  complete content, \<open>digest\<close> the digest function.
\<close>

record Manifest =
  artifact_path :: "string \<Rightarrow> string"
  artifact_digest :: "string \<Rightarrow> nat"
  digest :: "string \<Rightarrow> nat"

text \<open>Modelled from the spec: an entry is verified when its file has the recorded digest.\<close>

definition verified :: "Manifest \<Rightarrow> LocalArtifactCache \<Rightarrow> CacheEntry \<Rightarrow> bool" where
  "verified m st e =
     (case files st (entry_path e) of
        None \<Rightarrow> False
      | Some content \<Rightarrow> digest m content = entry_digest e)"

text \<open>
  Modelled from the spec: one network download. \<open>fetch\<close> is the object store as it answers
  this call: the bytes received, or \<open>None\<close> when the fetch fails. The file is installed,
  with its entry, only when the bytes have the digest of the manifest; otherwise the
  call fails with \<open>bad\<close> and the installed files are as before.
\<close>

definition download_install ::
  "Manifest \<Rightarrow> (string \<Rightarrow> string option) \<Rightarrow> cache_error \<Rightarrow> LocalArtifactCache \<Rightarrow> string \<Rightarrow>
   (cache_error + string) \<times> LocalArtifactCache" where
  "download_install m fetch bad st file_id =
     (let st' = st\<lparr>downloads := Suc (downloads st)\<rparr> in
      case fetch file_id of
        None \<Rightarrow> (Inl DownloadError, st')
      | Some content \<Rightarrow>
          if digest m content = artifact_digest m file_id then
            (Inr (artifact_path m file_id),
             st'\<lparr>entries := (entries st')(file_id \<mapsto>
                     \<lparr>entry_path = artifact_path m file_id, entry_digest = digest m content\<rparr>),
                 files := (files st')(artifact_path m file_id \<mapsto> content)\<rparr>)
          else (Inl bad, st'))"

text \<open>Modelled from the spec: \<^verbatim>\<open>LocalArtifactCache.get(file_id)\<close>.\<close>

definition cache_get ::
  "Manifest \<Rightarrow> (string \<Rightarrow> string option) \<Rightarrow> LocalArtifactCache \<Rightarrow> string \<Rightarrow>
   (cache_error + string) \<times> LocalArtifactCache" where
  "cache_get m fetch st file_id =
     (case entries st file_id of
        None \<Rightarrow> download_install m fetch DownloadError st file_id
      | Some e \<Rightarrow>
          if verified m st e then (Inr (entry_path e), st)
          else download_install m fetch CorruptCacheError
                 (st\<lparr>entries := (entries st)(file_id := None)\<rparr>) file_id)"

section \<open>Project tables\<close>

text \<open>
  \<^verbatim>\<open>Index.duplicated()\<close> with its default \<^verbatim>\<open>keep='first'\<close>: true at every label that has
  occurred at an earlier row.
\<close>

fun duplicated_from :: "'a list \<Rightarrow> 'a list \<Rightarrow> bool list" where
  "duplicated_from seen [] = []"
| "duplicated_from seen (x # xs) = (x \<in> set seen) # duplicated_from (x # seen) xs"













section \<open>Concrete tables\<close>

text \<open>
  Three small metadata tables as \<^verbatim>\<open>pd.read_csv\<close> returns them, with the list columns
  still texts, for the behavior sessions, the ophys sessions and the ophys experiments.
  The second and third behavior sessions have no file of their own.
\<close>

definition behavior_session_csv :: dataframe where
  "behavior_session_csv =
     \<lparr>df_index = [PNum 0, PNum 1, PNum 2],
      df_columns =
        [(''behavior_session_id'', [PNum 870987812, PNum 951410079, PNum 951520319]),
         (''ophys_experiment_id'',
            [PNull, PStr ''[951980471, 951980473]'', PStr ''[951980475]'']),
         (''driver_line'',
            [PStr ''['Sst-IRES-Cre']'', PStr ''['Camk2a-tTA', 'Slc17a7-IRES2-Cre']'', PNull]),
         (''session_type'', [PStr ''TRAINING_1_gratings'', PStr ''OPHYS_1_images_A'', PNull]),
         (''file_id'', [PNum 1085368458, PNull, PNull])]\<rparr>"

definition behavior_session_table_ex :: dataframe where
  "behavior_session_table_ex =
     \<lparr>df_index = [PNum 0, PNum 1, PNum 2],
      df_columns =
        [(''behavior_session_id'', [PNum 870987812, PNum 951410079, PNum 951520319]),
         (''ophys_experiment_id'',
            [PNull, PList [PNum 951980471, PNum 951980473], PList [PNum 951980475]]),
         (''driver_line'',
            [PList [PStr ''Sst-IRES-Cre''],
             PList [PStr ''Camk2a-tTA'', PStr ''Slc17a7-IRES2-Cre''], PNull]),
         (''session_type'', [PStr ''TRAINING_1_gratings'', PStr ''OPHYS_1_images_A'', PNull]),
         (''file_id'', [PNum 1085368458, PNull, PNull])]\<rparr>"

definition ophys_session_csv :: dataframe where
  "ophys_session_csv =
     \<lparr>df_index = [PNum 0, PNum 1],
      df_columns =
        [(''ophys_session_id'', [PNum 951410062, PNum 951520301]),
         (''behavior_session_id'', [PNum 951410079, PNum 951520319]),
         (''ophys_experiment_id'', [PStr ''[951980471, 951980473]'', PStr ''[951980475]'']),
         (''ophys_container_id'', [PStr ''[1018028339, 1018028342]'', PStr ''[1018028345]''])]\<rparr>"

definition ophys_session_table_ex :: dataframe where
  "ophys_session_table_ex =
     \<lparr>df_index = [PNum 0, PNum 1],
      df_columns =
        [(''ophys_session_id'', [PNum 951410062, PNum 951520301]),
         (''behavior_session_id'', [PNum 951410079, PNum 951520319]),
         (''ophys_experiment_id'',
            [PList [PNum 951980471, PNum 951980473], PList [PNum 951980475]]),
         (''ophys_container_id'',
            [PList [PNum 1018028339, PNum 1018028342], PList [PNum 1018028345]])]\<rparr>"

definition ophys_experiment_csv :: dataframe where
  "ophys_experiment_csv =
     \<lparr>df_index = [PNum 0, PNum 1, PNum 2],
      df_columns =
        [(''ophys_experiment_id'', [PNum 951980471, PNum 951980473, PNum 951980475]),
         (''ophys_container_id'', [PNum 1018028339, PNum 1018028342, PNum 1018028345]),
         (''behavior_session_id'', [PNum 951410079, PNum 951410079, PNum 951520319]),
         (''file_id'', [PNum 1085394308, PNum 1085400876, PNull])]\<rparr>"

text \<open>
  A table whose reference cell is the quoted text \<^verbatim>\<open>'[951980471]'\<close>: decoding it once gives
  the text \<^verbatim>\<open>[951980471]\<close>, decoding that text gives a list.
\<close>

definition quoted_csv :: dataframe where
  "quoted_csv =
     \<lparr>df_index = [PNum 0],
      df_columns =
        [(''behavior_session_id'', [PNum 951410079]),
         (''ophys_experiment_id'', [PStr (CHR 0x27 # ''[951980471]'' @ [CHR 0x27])])]\<rparr>"

definition quoted_once :: dataframe where
  "quoted_once =
     \<lparr>df_index = [PNum 0],
      df_columns =
        [(''behavior_session_id'', [PNum 951410079]),
         (''ophys_experiment_id'', [PStr ''[951980471]''])]\<rparr>"

definition quoted_twice :: dataframe where
  "quoted_twice =
     \<lparr>df_index = [PNum 0],
      df_columns =
        [(''behavior_session_id'', [PNum 951410079]),
         (''ophys_experiment_id'', [PList [PNum 951980471]])]\<rparr>"

text \<open>
  A cache whose manifest names the three tables and was written by the pipeline version
  2.10.0, with the files of the tables above, and the object that the constructor
  builds from it.
\<close>

definition example_cache :: S3CloudCache where
  "example_cache =
     \<lparr>metadata_file_names =
        Some [''behavior_session_table'', ''ophys_session_table'', ''ophys_experiment_table''],
      data_pipeline =
        [[''name'' \<mapsto> ''AllenSDK'', ''version'' \<mapsto> ''2.10.0'', ''comment'' \<mapsto> ''AllenSDK version''],
         [''name'' \<mapsto> ''pynwb'', ''version'' \<mapsto> ''1.4.0'']],
      file_id_column = ''file_id'',
      download_metadata = (\<lambda>name. Inr (''/cache/'' @ name @ ''.csv'')),
      download_data = (\<lambda>file_id. Inr (''/cache/'' @ file_id @ ''.nwb''))\<rparr>"

definition example_read_csv :: "string \<Rightarrow> exn + dataframe" where
  "example_read_csv path =
     (if path = ''/cache/ophys_session_table.csv'' then Inr ophys_session_csv
      else if path = ''/cache/behavior_session_table.csv'' then Inr behavior_session_csv
      else if path = ''/cache/ophys_experiment_table.csv'' then Inr ophys_experiment_csv
      else Inl FileNotFoundError)"

definition example_api :: BehaviorProjectCloudApi where
  "example_api =
     \<lparr>cache = example_cache,
      session_table = ophys_session_table_ex,
      behavior_only_session_table = behavior_session_table_ex,
      experiment_table = ophys_experiment_csv\<rparr>"

text \<open>
  A malformed pair of tables: two behavior sessions share the identifier 951410079 and
  two experiments share the identifier 951980471.
\<close>

definition duplicate_api :: BehaviorProjectCloudApi where
  "duplicate_api =
     \<lparr>cache = example_cache,
      session_table = ophys_session_table_ex,
      behavior_only_session_table =
        \<lparr>df_index = [PNum 0, PNum 1],
         df_columns =
           [(''behavior_session_id'', [PNum 951410079, PNum 951410079]),
            (''ophys_experiment_id'', [PNull, PNull]),
            (''file_id'', [PNum 1085368458, PNum 1085368459])]\<rparr>,
      experiment_table =
        \<lparr>df_index = [PNum 0, PNum 1],
         df_columns =
           [(''ophys_experiment_id'', [PNum 951980471, PNum 951980471]),
            (''file_id'', [PNum 1085394308, PNum 1085400876])]\<rparr>\<rparr>"

text \<open>
  A behavior session table whose file identifiers are texts: the file id of the first
  session is no decimal integer, that of the second is one.
\<close>

definition text_id_api :: BehaviorProjectCloudApi where
  "text_id_api =
     \<lparr>cache = example_cache,
      session_table = ophys_session_table_ex,
      behavior_only_session_table =
        \<lparr>df_index = [PNum 0, PNum 1],
         df_columns =
           [(''behavior_session_id'', [PNum 870987812, PNum 870987813]),
            (''ophys_experiment_id'', [PNull, PNull]),
            (''file_id'', [PStr ''nwb-1085368458'', PStr ''1085368459''])]\<rparr>,
      experiment_table = ophys_experiment_csv\<rparr>"



text \<open>
  Modelled from the spec: an example of the cache's fixed data, in which the digest of a
  file is its length and every complete file is nine bytes long.
\<close>

definition example_manifest :: Manifest where
  "example_manifest =
     \<lparr>artifact_path = (\<lambda>file_id. ''/cache/'' @ file_id @ ''.nwb''),
      artifact_digest = (\<lambda>file_id. 9),
      digest = length\<rparr>"

text \<open>Modelled from the spec: the empty cache directory, before any download.\<close>

definition empty_cache :: LocalArtifactCache where
  "empty_cache = \<lparr>entries = Map.empty, files = Map.empty, downloads = 0\<rparr>"

section \<open>Properties of \<^verbatim>\<open>literal_col_eval\<close>\<close>

lemma apply_notnull_length:
  "apply_notnull f xs = Inr ys \<Longrightarrow> length ys = length xs"
  by (induction xs arbitrary: ys) (auto split: if_splits sum.splits)

lemma apply_notnull_nth:
  "apply_notnull f xs = Inr ys \<Longrightarrow> i < length xs \<Longrightarrow>
   (if notnull (xs ! i) then f (xs ! i) = Inr (ys ! i) else ys ! i = xs ! i)"
proof (induction xs arbitrary: ys i)
  case Nil
  then show ?case by simp
next
  case (Cons x xs)
  then show ?case
    by (cases i) (auto split: if_splits sum.splits)
qed

lemma apply_notnull_no_text:
  "\<forall>x \<in> set xs. \<forall>s. x \<noteq> PStr s \<Longrightarrow> apply_notnull (converter decode) xs = Inr xs"
proof (induction xs)
  case Nil
  then show ?case by simp
next
  case (Cons x xs)
  then have "converter decode x = Inr x"
    by (cases x) (simp_all add: converter_def)
  with Cons show ?case by simp
qed

lemma literal_col_eval_index:
  "literal_col_eval decode cs df = Inr df' \<Longrightarrow> df_index df' = df_index df"
  by (induction cs arbitrary: df) (auto split: option.splits sum.splits)

lemma literal_col_eval_names:
  "literal_col_eval decode cs df = Inr df' \<Longrightarrow>
   map fst (df_columns df') = map fst (df_columns df)"
proof (induction cs arbitrary: df)
  case Nil
  then show ?case by simp
next
  case (Cons c cs)
  show ?case
  proof (cases "map_of (df_columns df) c")
    case None
    with Cons show ?thesis by simp
  next
    case (Some cells)
    with Cons.prems obtain cells' where
      r: "literal_col_eval decode cs
            (df\<lparr>df_columns := AList.update c cells' (df_columns df)\<rparr>) = Inr df'"
      by (auto split: sum.splits)
    from Some have "c \<in> fst ` set (df_columns df)"
      by (metis domI dom_map_of_conv_image_fst)
    then have "map fst (AList.update c cells' (df_columns df)) = map fst (df_columns df)"
      by (simp add: AList.update_keys)
    with Cons.IH [OF r] show ?thesis by simp
  qed
qed

lemma literal_col_eval_other:
  "literal_col_eval decode cs df = Inr df' \<Longrightarrow> c \<notin> set cs \<Longrightarrow>
   map_of (df_columns df') c = map_of (df_columns df) c"
proof (induction cs arbitrary: df)
  case Nil
  then show ?case by simp
next
  case (Cons a cs)
  then show ?case
    by (auto split: option.splits sum.splits simp: AList.update_conv')
qed

text \<open>
  A column of the list is converted exactly once: its cells in the result are the
  converted cells of the input.
\<close>

lemma literal_col_eval_column:
  "literal_col_eval decode cs df = Inr df' \<Longrightarrow> distinct cs \<Longrightarrow> c \<in> set cs \<Longrightarrow>
   map_of (df_columns df) c = Some cells \<Longrightarrow>
   \<exists>cells'. apply_notnull (converter decode) cells = Inr cells' \<and>
     map_of (df_columns df') c = Some cells'"
proof (induction cs arbitrary: df)
  case Nil
  then show ?case by simp
next
  case (Cons a cs)
  show ?case
  proof (cases "a = c")
    case True
    with Cons.prems obtain cells' where
      a: "apply_notnull (converter decode) cells = Inr cells'" and
      r: "literal_col_eval decode cs
            (df\<lparr>df_columns := AList.update c cells' (df_columns df)\<rparr>) = Inr df'"
      by (auto split: sum.splits)
    from Cons.prems True have "c \<notin> set cs" by simp
    from literal_col_eval_other [OF r this] have "map_of (df_columns df') c = Some cells'"
      by (simp add: AList.update_conv')
    with a show ?thesis by blast
  next
    case False
    with Cons.prems have c: "c \<in> set cs" and d: "distinct cs" by auto
    show ?thesis
    proof (cases "map_of (df_columns df) a")
      case None
      with Cons.prems have "literal_col_eval decode cs df = Inr df'" by simp
      from Cons.IH [OF this d c Cons.prems(4)] show ?thesis .
    next
      case (Some acells)
      with Cons.prems obtain acells' where
        r: "literal_col_eval decode cs
              (df\<lparr>df_columns := AList.update a acells' (df_columns df)\<rparr>) = Inr df'"
        by (auto split: sum.splits)
      from False Cons.prems(4)
      have "map_of (df_columns (df\<lparr>df_columns := AList.update a acells' (df_columns df)\<rparr>)) c
            = Some cells"
        by (simp add: AList.update_conv')
      from Cons.IH [OF r d c this] show ?thesis .
    qed
  qed
qed

lemma literal_col_eval_fixed:
  "\<forall>c \<in> set cs. \<forall>cells. map_of (df_columns df) c = Some cells \<longrightarrow>
     (\<forall>x \<in> set cells. \<forall>s. x \<noteq> PStr s) \<Longrightarrow>
   literal_col_eval decode cs df = Inr df"
proof (induction cs)
  case Nil
  then show ?case by simp
next
  case (Cons c cs)
  show ?case
  proof (cases "map_of (df_columns df) c")
    case None
    with Cons show ?thesis by simp
  next
    case (Some cells)
    with Cons.prems have "\<forall>x \<in> set cells. \<forall>s. x \<noteq> PStr s" by simp
    then have a: "apply_notnull (converter decode) cells = Inr cells"
      by (rule apply_notnull_no_text)
    from Some have "AList.update c cells (df_columns df) = df_columns df"
      by (rule AList.update_triv)
    with Some a Cons show ?thesis by simp
  qed
qed

lemma distinct_structured_columns: "distinct structured_columns"
  by (simp add: structured_columns_def)

lemma literal_eval_behavior_session_csv:
  "literal_col_eval literal_eval structured_columns behavior_session_csv
   = Inr behavior_session_table_ex"
  by code_simp

lemma literal_eval_ophys_session_csv:
  "literal_col_eval literal_eval structured_columns ophys_session_csv
   = Inr ophys_session_table_ex"
  by code_simp


text \<open>
  Claim C4. Whenever \<open>literal_col_eval\<close> returns a table, every text cell of a configured
  column (\<^verbatim>\<open>ophys_experiment_id\<close>, \<^verbatim>\<open>ophys_container_id\<close>, \<^verbatim>\<open>driver_line\<close>) has been replaced
  by the value that the decoder gives for that text. In particular a \<^verbatim>\<open>driver_line\<close> cell
  with the text \<^verbatim>\<open>['Sst-IRES-Cre']\<close> becomes the one-element list of the text
  \<^verbatim>\<open>Sst-IRES-Cre\<close>.
\<close>

theorem literal_col_eval_decodes:
  "(literal_col_eval decode structured_columns df = Inr df' \<longrightarrow>
      c \<in> set structured_columns \<longrightarrow> map_of (df_columns df) c = Some cells \<longrightarrow>
      i < length cells \<longrightarrow> cells ! i = PStr s \<longrightarrow>
      (\<exists>cells' v. map_of (df_columns df') c = Some cells' \<and> length cells' = length cells
         \<and> decode s = Inr v \<and> cells' ! i = v))
   \<and> literal_col_eval literal_eval structured_columns
        \<lparr>df_index = [PNum 0], df_columns = [(''driver_line'', [PStr ''['Sst-IRES-Cre']''])]\<rparr>
      = Inr \<lparr>df_index = [PNum 0],
             df_columns = [(''driver_line'', [PList [PStr ''Sst-IRES-Cre'']])]\<rparr>"
proof (intro conjI impI)
  assume r: "literal_col_eval decode structured_columns df = Inr df'"
    and c: "c \<in> set structured_columns" and m: "map_of (df_columns df) c = Some cells"
    and i: "i < length cells" and s: "cells ! i = PStr s"
  from literal_col_eval_column [OF r distinct_structured_columns c m]
  obtain cells' where a: "apply_notnull (converter decode) cells = Inr cells'"
    and m': "map_of (df_columns df') c = Some cells'" by blast
  from apply_notnull_nth [OF a i] s have "decode s = Inr (cells' ! i)"
    by (simp add: notnull_def converter_def)
  with m' apply_notnull_length [OF a]
  show "\<exists>cells' v. map_of (df_columns df') c = Some cells' \<and> length cells' = length cells
         \<and> decode s = Inr v \<and> cells' ! i = v" by simp
next
  show "literal_col_eval literal_eval structured_columns
        \<lparr>df_index = [PNum 0], df_columns = [(''driver_line'', [PStr ''['Sst-IRES-Cre']''])]\<rparr>
      = Inr \<lparr>df_index = [PNum 0],
             df_columns = [(''driver_line'', [PList [PStr ''Sst-IRES-Cre'']])]\<rparr>"
    by code_simp
qed

text \<open>
  The ophys session table: the second cell of \<^verbatim>\<open>ophys_container_id\<close> is the decoded list.
\<close>

theorem literal_col_eval_decodes_witness:
  "literal_col_eval literal_eval structured_columns ophys_session_csv
     = Inr ophys_session_table_ex
   \<and> ''ophys_container_id'' \<in> set structured_columns
   \<and> map_of (df_columns ophys_session_csv) ''ophys_container_id''
       = Some [PStr ''[1018028339, 1018028342]'', PStr ''[1018028345]'']
   \<and> (1::nat) < length [PStr ''[1018028339, 1018028342]'', PStr ''[1018028345]'']
   \<and> (\<exists>cells' v. map_of (df_columns ophys_session_table_ex) ''ophys_container_id'' = Some cells'
         \<and> length cells' = 2 \<and> literal_eval ''[1018028345]'' = Inr v \<and> cells' ! 1 = v
         \<and> v = PList [PNum 1018028345])"
proof -
  have m: "map_of (df_columns ophys_session_csv) ''ophys_container_id''
       = Some [PStr ''[1018028339, 1018028342]'', PStr ''[1018028345]'']"
    by (simp add: ophys_session_csv_def)
  have c: "''ophys_container_id'' \<in> set structured_columns"
    by (simp add: structured_columns_def)
  have v: "literal_eval ''[1018028345]'' = Inr (PList [PNum 1018028345])"
    by code_simp
  from literal_col_eval_decodes [of literal_eval ophys_session_csv ophys_session_table_ex
      "''ophys_container_id''" "[PStr ''[1018028339, 1018028342]'', PStr ''[1018028345]'']"
      1 "''[1018028345]''"]
    literal_eval_ophys_session_csv m c v
  show ?thesis by auto
qed

text \<open>
  Claim C6 as stated fails: applying \<open>literal_col_eval\<close> to its own result can change the
  table. The quoted text \<^verbatim>\<open>'[951980471]'\<close> decodes to the text \<^verbatim>\<open>[951980471]\<close>, which the
  second application decodes again, to a list.
\<close>

theorem literal_col_eval_twice_counterexample:
  "literal_col_eval literal_eval structured_columns quoted_csv = Inr quoted_once
   \<and> literal_col_eval literal_eval structured_columns quoted_once = Inr quoted_twice
   \<and> quoted_twice \<noteq> quoted_once"
proof (intro conjI)
  show "literal_col_eval literal_eval structured_columns quoted_csv = Inr quoted_once"
    by code_simp
  show "literal_col_eval literal_eval structured_columns quoted_once = Inr quoted_twice"
    by code_simp
  show "quoted_twice \<noteq> quoted_once"
    by (simp add: quoted_twice_def quoted_once_def)
qed

text \<open>
  Claim C6, amended. \<open>literal_col_eval\<close> is a function of the table it is given, so
  loading the same table again gives an equal table. Applied to its own result it
  returns that result unchanged, provided no cell of the configured columns of the
  result is a text.
\<close>

theorem literal_col_eval_twice:
  assumes "literal_col_eval decode structured_columns df = Inr df'"
    and "\<forall>c \<in> set structured_columns. \<forall>cells. map_of (df_columns df') c = Some cells \<longrightarrow>
           (\<forall>x \<in> set cells. \<forall>s. x \<noteq> PStr s)"
  shows "literal_col_eval decode structured_columns df' = Inr df'"
  using assms(2) by (rule literal_col_eval_fixed)

text \<open>
  The ophys session table: its decoded form holds no text in the configured columns, and
  a second application returns it unchanged.
\<close>

theorem literal_col_eval_twice_witness:
  "literal_col_eval literal_eval structured_columns ophys_session_csv
     = Inr ophys_session_table_ex
   \<and> literal_col_eval literal_eval structured_columns ophys_session_table_ex
     = Inr ophys_session_table_ex"
proof -
  have "\<forall>c \<in> set structured_columns. \<forall>cells.
      map_of (df_columns ophys_session_table_ex) c = Some cells \<longrightarrow>
        (\<forall>x \<in> set cells. \<forall>s. x \<noteq> PStr s)"
    by (auto simp add: structured_columns_def ophys_session_table_ex_def)
  from literal_col_eval_twice [OF literal_eval_ophys_session_csv this]
    literal_eval_ophys_session_csv
  show ?thesis by simp
qed

text \<open>
  Claim C7. Whenever \<open>literal_col_eval\<close> returns a table, with the default columns and
  any decoder: the row labels and the column names are those of the input, every column
  whose name is not in the configured list is unchanged, and in every column, configured
  or not, the number of cells is kept and every null cell is still null.
\<close>

theorem literal_col_eval_frame:
  assumes "literal_col_eval decode structured_columns df = Inr df'"
  shows "df_index df' = df_index df
    \<and> map fst (df_columns df') = map fst (df_columns df)
    \<and> (\<forall>c. c \<notin> set structured_columns \<longrightarrow>
          map_of (df_columns df') c = map_of (df_columns df) c)
    \<and> (\<forall>c cells. map_of (df_columns df) c = Some cells \<longrightarrow>
          (\<exists>cells'. map_of (df_columns df') c = Some cells' \<and> length cells' = length cells
             \<and> (\<forall>i < length cells. cells ! i = PNull \<longrightarrow> cells' ! i = PNull)))"
proof -
  have cols: "\<exists>cells'. map_of (df_columns df') c = Some cells' \<and> length cells' = length cells
      \<and> (\<forall>i < length cells. cells ! i = PNull \<longrightarrow> cells' ! i = PNull)"
    if c: "map_of (df_columns df) c = Some cells" for c cells
  proof (cases "c \<in> set structured_columns")
    case True
    from literal_col_eval_column [OF assms distinct_structured_columns True c]
    obtain cells' where a: "apply_notnull (converter decode) cells = Inr cells'"
      and m: "map_of (df_columns df') c = Some cells'" by blast
    have "cells' ! i = PNull" if "i < length cells" "cells ! i = PNull" for i
      using apply_notnull_nth [OF a that(1)] that(2) by (simp add: notnull_def)
    with m apply_notnull_length [OF a] show ?thesis by simp
  next
    case False
    from literal_col_eval_other [OF assms False] c show ?thesis by simp
  qed
  from literal_col_eval_index [OF assms] literal_col_eval_names [OF assms]
    literal_col_eval_other [OF assms] cols
  show ?thesis by blast
qed

text \<open>
  The behavior session table: the column \<^verbatim>\<open>session_type\<close> is kept, and the null cell of
  \<^verbatim>\<open>driver_line\<close> stays null while its two texts are decoded.
\<close>

theorem literal_col_eval_frame_witness:
  "literal_col_eval literal_eval structured_columns behavior_session_csv
     = Inr behavior_session_table_ex
   \<and> df_index behavior_session_table_ex = df_index behavior_session_csv
   \<and> map fst (df_columns behavior_session_table_ex) = map fst (df_columns behavior_session_csv)
   \<and> ''session_type'' \<notin> set structured_columns
   \<and> map_of (df_columns behavior_session_table_ex) ''session_type''
       = map_of (df_columns behavior_session_csv) ''session_type''
   \<and> map_of (df_columns behavior_session_csv) ''driver_line''
       = Some [PStr ''['Sst-IRES-Cre']'', PStr ''['Camk2a-tTA', 'Slc17a7-IRES2-Cre']'', PNull]
   \<and> map_of (df_columns behavior_session_table_ex) ''driver_line''
       = Some [PList [PStr ''Sst-IRES-Cre''],
               PList [PStr ''Camk2a-tTA'', PStr ''Slc17a7-IRES2-Cre''], PNull]"
  using literal_col_eval_frame [OF literal_eval_behavior_session_csv]
    literal_eval_behavior_session_csv
  by (simp add: behavior_session_table_ex_def behavior_session_csv_def structured_columns_def)

section \<open>Properties of \<^verbatim>\<open>version_check\<close>\<close>

lemma allensdk_entries_filter:
  "\<forall>i \<in> set pvs. i ''name'' \<noteq> None \<Longrightarrow>
   allensdk_entries pvs = Inr (filter (\<lambda>i. i ''name'' = Some ''AllenSDK'') pvs)"
  by (induction pvs) auto

lemma parse_examples:
  "VersionInfo_parse ''2.9.0'' = Inr \<lparr>major = 2, minor = 9, patch = 0\<rparr>"
  "VersionInfo_parse ''3.0.0'' = Inr \<lparr>major = 3, minor = 0, patch = 0\<rparr>"
  "VersionInfo_parse ''2.9.5'' = Inr \<lparr>major = 2, minor = 9, patch = 5\<rparr>"
  by code_simp+

text \<open>
  Claim C2. Let every entry of \<^verbatim>\<open>pipeline_versions\<close> have a name and exactly one be named
  \<^verbatim>\<open>AllenSDK\<close>, with the version \<open>pv\<close>. If \<open>pv\<close> is not registered in the compatibility
  table, \<open>version_check\<close> raises \<^verbatim>\<open>BehaviorCloudCacheVersionException\<close>. If it is registered
  with the limits \<open>lo\<close> and \<open>hi\<close>, the check raises that exception exactly when the running
  version is older than \<open>lo\<close> (\<open>lo\<close> compares greater) or not older than \<open>hi\<close> (\<open>hi\<close> compares
  less or equal), and returns otherwise. With the limits 2.9.0 and 3.0.0 of the table,
  the running versions 2.8.9 and 3.0.0 are refused and 2.9.5 is accepted.
\<close>

theorem version_check_limits:
  assumes "\<forall>i \<in> set pipeline_versions. i ''name'' \<noteq> None"
    and "filter (\<lambda>i. i ''name'' = Some ''AllenSDK'') pipeline_versions = [entry]"
    and "entry ''version'' = Some pv"
    and "compatibility ''pipeline_versions'' = Some registered"
  shows "(registered pv = None \<longrightarrow>
            version_check parse compare pipeline_versions sdk_version compatibility
            = Inl BehaviorCloudCacheVersionException)
    \<and> (\<forall>limits lo hi rest smin smax running.
          registered pv = Some limits \<longrightarrow> limits ''AllenSDK'' = Some (lo # hi # rest) \<longrightarrow>
          parse lo = Inr smin \<longrightarrow> parse hi = Inr smax \<longrightarrow> parse sdk_version = Inr running \<longrightarrow>
          version_check parse compare pipeline_versions sdk_version compatibility
          = (if 0 < compare smin running \<or> compare smax running \<le> 0
             then Inl BehaviorCloudCacheVersionException else Inr ()))
    \<and> version_check VersionInfo_parse VersionInfo_compare
         [[''name'' \<mapsto> ''AllenSDK'', ''version'' \<mapsto> ''2.9.0'']] ''2.8.9'' COMPATIBILITY
       = Inl BehaviorCloudCacheVersionException
    \<and> version_check VersionInfo_parse VersionInfo_compare
         [[''name'' \<mapsto> ''AllenSDK'', ''version'' \<mapsto> ''2.9.0'']] ''3.0.0'' COMPATIBILITY
       = Inl BehaviorCloudCacheVersionException
    \<and> version_check VersionInfo_parse VersionInfo_compare
         [[''name'' \<mapsto> ''AllenSDK'', ''version'' \<mapsto> ''2.9.0'']] ''2.9.5'' COMPATIBILITY
       = Inr ()"
proof -
  from assms(1,2) have e: "allensdk_entries pipeline_versions = Inr [entry]"
    by (simp add: allensdk_entries_filter)
  have a: "registered pv = None \<longrightarrow>
            version_check parse compare pipeline_versions sdk_version compatibility
            = Inl BehaviorCloudCacheVersionException"
    using e assms(3,4) by (simp add: version_check_def bind_exn_def getitem_def)
  have b: "\<forall>limits lo hi rest smin smax running.
          registered pv = Some limits \<longrightarrow> limits ''AllenSDK'' = Some (lo # hi # rest) \<longrightarrow>
          parse lo = Inr smin \<longrightarrow> parse hi = Inr smax \<longrightarrow> parse sdk_version = Inr running \<longrightarrow>
          version_check parse compare pipeline_versions sdk_version compatibility
          = (if 0 < compare smin running \<or> compare smax running \<le> 0
             then Inl BehaviorCloudCacheVersionException else Inr ())"
    using e assms(3,4)
    by (simp add: version_check_def bind_exn_def getitem_def list_getitem_def)
  have c1: "version_check VersionInfo_parse VersionInfo_compare
         [[''name'' \<mapsto> ''AllenSDK'', ''version'' \<mapsto> ''2.9.0'']] ''2.8.9'' COMPATIBILITY
       = Inl BehaviorCloudCacheVersionException" by code_simp
  have c2: "version_check VersionInfo_parse VersionInfo_compare
         [[''name'' \<mapsto> ''AllenSDK'', ''version'' \<mapsto> ''2.9.0'']] ''3.0.0'' COMPATIBILITY
       = Inl BehaviorCloudCacheVersionException" by code_simp
  have c3: "version_check VersionInfo_parse VersionInfo_compare
         [[''name'' \<mapsto> ''AllenSDK'', ''version'' \<mapsto> ''2.9.0'']] ''2.9.5'' COMPATIBILITY
       = Inr ()" by code_simp
  from a b c1 c2 c3 show ?thesis by blast
qed

text \<open>
  The manifest of the example cache, written by the pipeline version 2.10.0, with the
  running version 2.9.5.
\<close>

theorem version_check_limits_witness:
  "filter (\<lambda>i. i ''name'' = Some ''AllenSDK'') (data_pipeline example_cache)
     = [hd (data_pipeline example_cache)]
   \<and> hd (data_pipeline example_cache) ''version'' = Some ''2.10.0''
   \<and> version_check VersionInfo_parse VersionInfo_compare (data_pipeline example_cache)
        ''2.9.5'' COMPATIBILITY = Inr ()"
proof -
  let ?pvs = "data_pipeline example_cache"
  let ?reg = "[''2.9.0'' \<mapsto> [''AllenSDK'' \<mapsto> [''2.9.0'', ''3.0.0'']],
               ''2.10.0'' \<mapsto> [''AllenSDK'' \<mapsto> [''2.9.0'', ''3.0.0'']]]"
  have h1: "\<forall>i \<in> set ?pvs. i ''name'' \<noteq> None"
    by (simp add: example_cache_def)
  have h2: "filter (\<lambda>i. i ''name'' = Some ''AllenSDK'') ?pvs = [hd ?pvs]"
    by (simp add: example_cache_def)
  have h3: "hd ?pvs ''version'' = Some ''2.10.0''"
    by (simp add: example_cache_def)
  have h4: "COMPATIBILITY ''pipeline_versions'' = Some ?reg"
    by (simp add: COMPATIBILITY_def)
  from version_check_limits [where pipeline_versions = "?pvs" and entry = "hd ?pvs"
      and pv = "''2.10.0''" and compatibility = COMPATIBILITY and registered = "?reg"
      and parse = VersionInfo_parse and compare = VersionInfo_compare
      and sdk_version = "''2.9.5''", OF h1 h2 h3 h4]
  have "\<forall>limits lo hi rest smin smax running.
          ?reg ''2.10.0'' = Some limits \<longrightarrow> limits ''AllenSDK'' = Some (lo # hi # rest) \<longrightarrow>
          VersionInfo_parse lo = Inr smin \<longrightarrow> VersionInfo_parse hi = Inr smax \<longrightarrow>
          VersionInfo_parse ''2.9.5'' = Inr running \<longrightarrow>
          version_check VersionInfo_parse VersionInfo_compare ?pvs ''2.9.5'' COMPATIBILITY
          = (if 0 < VersionInfo_compare smin running \<or> VersionInfo_compare smax running \<le> 0
             then Inl BehaviorCloudCacheVersionException else Inr ())"
    by blast
  from this [rule_format, of "[''AllenSDK'' \<mapsto> [''2.9.0'', ''3.0.0'']]" "''2.9.0''" "''3.0.0''" "[]"
      "\<lparr>major = 2, minor = 9, patch = 0\<rparr>" "\<lparr>major = 3, minor = 0, patch = 0\<rparr>"
      "\<lparr>major = 2, minor = 9, patch = 5\<rparr>"]
  have "version_check VersionInfo_parse VersionInfo_compare ?pvs ''2.9.5'' COMPATIBILITY = Inr ()"
    by (simp add: parse_examples VersionInfo_compare_def cmp_def)
  with h2 h3 show ?thesis by simp
qed

section \<open>Properties of the constructor\<close>








text \<open>
  Claim C9. When the manifest has no metadata file names, or their set is not exactly the
  three expected table names, the constructor raises \<^verbatim>\<open>RuntimeError\<close> with an empty trace:
  the version check has not run and no table has been fetched or read, whatever the skip
  flag.
\<close>

theorem init_rejects_metadata_names:
  "metadata_file_names c = None \<or>
   (\<exists>names. metadata_file_names c = Some names \<and> set names \<noteq> expected_metadata) \<Longrightarrow>
   init parse compare sdk decode read_csv c skip = ([], Inl RuntimeError)"
  by (auto simp add: init_def)

text \<open>
  The example cache without names, with a table name missing, and with one too many.
\<close>

theorem init_rejects_metadata_names_witness:
  "init VersionInfo_parse VersionInfo_compare ''2.9.5'' literal_eval example_read_csv
     (example_cache\<lparr>metadata_file_names := None\<rparr>) None = ([], Inl RuntimeError)
   \<and> init VersionInfo_parse VersionInfo_compare ''2.9.5'' literal_eval example_read_csv
     (example_cache\<lparr>metadata_file_names :=
        Some [''behavior_session_table'', ''ophys_session_table'']\<rparr>) None
     = ([], Inl RuntimeError)
   \<and> init VersionInfo_parse VersionInfo_compare ''2.9.5'' literal_eval example_read_csv
     (example_cache\<lparr>metadata_file_names :=
        Some [''behavior_session_table'', ''ophys_session_table'', ''ophys_experiment_table'',
              ''ophys_cells_table'']\<rparr>) (Some True)
     = ([], Inl RuntimeError)"
proof (intro conjI)
  show "init VersionInfo_parse VersionInfo_compare ''2.9.5'' literal_eval example_read_csv
     (example_cache\<lparr>metadata_file_names := None\<rparr>) None = ([], Inl RuntimeError)"
    by (rule init_rejects_metadata_names) simp
  have "''ophys_experiment_table'' \<in> expected_metadata"
    by (simp add: expected_metadata_def)
  moreover have "''ophys_experiment_table''
      \<notin> set [''behavior_session_table'', ''ophys_session_table'']"
    by simp
  ultimately
  have "set [''behavior_session_table'', ''ophys_session_table''] \<noteq> expected_metadata"
    by blast
  then show "init VersionInfo_parse VersionInfo_compare ''2.9.5'' literal_eval example_read_csv
     (example_cache\<lparr>metadata_file_names :=
        Some [''behavior_session_table'', ''ophys_session_table'']\<rparr>) None
     = ([], Inl RuntimeError)"
    by (intro init_rejects_metadata_names) simp
  have "''ophys_cells_table'' \<notin> expected_metadata"
    by (simp add: expected_metadata_def)
  moreover have "''ophys_cells_table''
      \<in> set [''behavior_session_table'', ''ophys_session_table'', ''ophys_experiment_table'',
              ''ophys_cells_table'']"
    by simp
  ultimately
  have "set [''behavior_session_table'', ''ophys_session_table'', ''ophys_experiment_table'',
              ''ophys_cells_table''] \<noteq> expected_metadata"
    by blast
  then show "init VersionInfo_parse VersionInfo_compare ''2.9.5'' literal_eval example_read_csv
     (example_cache\<lparr>metadata_file_names :=
        Some [''behavior_session_table'', ''ophys_session_table'', ''ophys_experiment_table'',
              ''ophys_cells_table'']\<rparr>) (Some True)
     = ([], Inl RuntimeError)"
    by (intro init_rejects_metadata_names) simp
qed



section \<open>Properties of record resolution\<close>

lemma filter_mask_Cons:
  "filter_mask (k # keep) (x # xs) = (if k then x # filter_mask keep xs else filter_mask keep xs)"
  by (simp add: filter_mask_def)

lemma filter_mask_Nil: "filter_mask [] xs = []" "filter_mask keep [] = []"
  by (simp_all add: filter_mask_def)

lemma filter_mask_none:
  "\<forall>x \<in> set ids. \<not> P x \<Longrightarrow> filter_mask (map P ids) xs = []"
proof (induction ids arbitrary: xs)
  case Nil
  then show ?case by (simp add: filter_mask_Nil)
next
  case (Cons a ids)
  then show ?case by (cases xs) (simp_all add: filter_mask_Nil filter_mask_Cons)
qed

lemma filter_mask_count:
  "length xs = length ids \<Longrightarrow>
   length (filter_mask (map P ids) xs) = length (filter P ids)"
proof (induction ids arbitrary: xs)
  case Nil
  then show ?case by (simp add: filter_mask_Nil)
next
  case (Cons a ids)
  then show ?case by (cases xs) (simp_all add: filter_mask_Cons)
qed

lemma filter_mask_unique:
  "length xs = length ids \<Longrightarrow> i < length ids \<Longrightarrow> P (ids ! i) \<Longrightarrow>
   \<forall>j < length ids. j \<noteq> i \<longrightarrow> \<not> P (ids ! j) \<Longrightarrow>
   filter_mask (map P ids) xs = [xs ! i]"
proof (induction ids arbitrary: xs i)
  case Nil
  then show ?case by simp
next
  case (Cons a ids)
  from Cons.prems(1) obtain x xs' where xs: "xs = x # xs'" "length xs' = length ids"
    by (cases xs) auto
  show ?case
  proof (cases i)
    case 0
    have "\<forall>y \<in> set ids. \<not> P y"
    proof
      fix y assume "y \<in> set ids"
      then obtain k where "k < length ids" "ids ! k = y" by (auto simp add: in_set_conv_nth)
      with Cons.prems(4) [rule_format, of "Suc k"] 0 show "\<not> P y" by auto
    qed
    from filter_mask_none [OF this] 0 Cons.prems(3) xs show ?thesis
      by (simp add: filter_mask_Cons)
  next
    case (Suc k)
    with Cons.prems have k: "k < length ids" "P (ids ! k)" by simp_all
    have u: "\<forall>j < length ids. j \<noteq> k \<longrightarrow> \<not> P (ids ! j)"
    proof (intro allI impI)
      fix j assume "j < length ids" "j \<noteq> k"
      with Cons.prems(4) [rule_format, of "Suc j"] Suc show "\<not> P (ids ! j)" by auto
    qed
    from Cons.prems(4) [rule_format, of 0] Suc have "\<not> P a" by auto
    with Cons.IH [OF xs(2) k u] xs Suc show ?thesis
      by (simp add: filter_mask_Cons)
  qed
qed

lemma map_of_labelled:
  "map_of (map (\<lambda>(name, cells). (PStr name, g cells)) cols) (PStr name)
   = map_option g (map_of cols name)"
  by (induction cols) auto

lemma rectangular_column:
  "rectangular df \<Longrightarrow> map_of (df_columns df) name = Some cells \<Longrightarrow>
   length cells = length (df_index df)"
  by (force simp add: rectangular_def dest: map_of_SomeD)

lemma query_eq_count:
  assumes "rectangular df" and "map_of (df_columns df) column = Some ids"
    and "float64_exact v"
  shows "\<exists>row. query_eq df column v = Inr row
    \<and> shape0 row = length (filter (\<lambda>x. x = PNum v) ids)"
proof -
  from rectangular_column [OF assms(1,2)] have "length (df_index df) = length ids" by simp
  from filter_mask_count [OF this, of "\<lambda>x. x = PNum v"] assms(2,3) show ?thesis
    by (simp add: query_eq_def shape0_def take_rows_def)
qed

text \<open>
  The one row that matches: the query returns it alone, and the cells of the Series that
  \<open>squeeze\<close> makes of it are the cells of the table at that row.
\<close>

lemma query_eq_row:
  assumes r: "rectangular df" and n: "length (df_columns df) \<noteq> 1"
    and ids: "map_of (df_columns df) column = Some ids"
    and i: "i < length ids" "ids ! i = PNum v"
    and x: "float64_exact v"
    and u: "\<forall>j < length ids. j \<noteq> i \<longrightarrow> ids ! j \<noteq> PNum v"
    and f: "row_followed (row_at df i)"
  shows "\<exists>row sq. query_eq df column v = Inr row \<and> shape0 row = 1 \<and> squeeze row = Inr sq
    \<and> (\<forall>name cells. map_of (df_columns df) name = Some cells \<longrightarrow>
          obj_getitem sq name = Inr (Val (cells ! i))
          \<and> obj_getattr sq name = Inr (cells ! i))
    \<and> (\<forall>name. map_of (df_columns df) name = None \<longrightarrow>
          obj_getitem sq name = Inl KeyError)"
proof -
  let ?keep = "map (\<lambda>x. x = PNum v) ids"
  let ?row = "take_rows ?keep df"
  let ?sq = "Series (map (\<lambda>(name, cells). (PStr name, first_cell cells)) (df_columns ?row))"
  have q: "query_eq df column v = Inr ?row"
    using ids x by (simp add: query_eq_def)
  have one: "filter_mask ?keep xs = [xs ! i]" if "length xs = length ids" for xs :: "pyval list"
    using filter_mask_unique [OF that i(1), of "\<lambda>x. x = PNum v"] i(2) u by simp
  from rectangular_column [OF r ids] have li: "length (df_index df) = length ids" by simp
  from one [OF li] have s: "shape0 ?row = 1"
    by (simp add: shape0_def take_rows_def)
  from n have n': "length (df_columns ?row) \<noteq> 1"
    by (simp add: take_rows_def)
  have first: "first_cell (filter_mask ?keep cells) = cells ! i"
    if "length cells = length ids" for cells
    using one [OF that] by (simp add: first_cell_def)
  have "map (\<lambda>(name, cells). first_cell cells) (df_columns ?row) = row_at df i"
  proof -
    have "first_cell (filter_mask ?keep cells) = cells ! i"
      if "(name, cells) \<in> set (df_columns df)" for name cells
    proof -
      from r that li have "length cells = length ids"
        by (force simp add: rectangular_def)
      then show ?thesis by (rule first)
    qed
    then show ?thesis
      by (auto simp add: take_rows_def row_at_def)
  qed
  with s n' f have sq: "squeeze ?row = Inr ?sq"
    by (simp add: squeeze_def shape0_def)
  have look: "map_of (map (\<lambda>(name, cells). (PStr name, first_cell cells)) (df_columns ?row))
      (PStr name) = map_option (\<lambda>cells. first_cell (filter_mask ?keep cells))
        (map_of (df_columns df) name)" for name
  proof -
    have "map (\<lambda>(name, cells). (PStr name, first_cell cells)) (df_columns ?row)
        = map (\<lambda>(name, cells). (PStr name, first_cell (filter_mask ?keep cells)))
            (df_columns df)"
      by (simp add: take_rows_def case_prod_beta)
    then show ?thesis
      by (simp only: map_of_labelled)
  qed
  have c: "obj_getitem ?sq name = Inr (Val (cells ! i))
      \<and> obj_getattr ?sq name = Inr (cells ! i)"
    if m: "map_of (df_columns df) name = Some cells" for name cells
  proof -
    from rectangular_column [OF r m] li have "length cells = length ids" by simp
    from first [OF this] m show ?thesis
      by (simp add: obj_getitem_def obj_getattr_def look)
  qed
  have d: "obj_getitem ?sq name = Inl KeyError"
    if "map_of (df_columns df) name = None" for name
    using that by (simp add: obj_getitem_def look)
  from q s sq c d show ?thesis by blast
qed

lemma py_str_examples:
  "py_str 1085368458 = ''1085368458''"
  "py_str 1085394308 = ''1085394308''"
  "py_str 1085368459 = ''1085368459''"
  by code_simp+

lemma int_of_text_examples:
  "int_of_text ''nwb-1085368458'' = Inl ValueError"
  "int_of_text ''1085368459'' = Inr 1085368459"
  by code_simp+

lemma get_behavior_session_paths:
  assumes "query_eq (behavior_only_session_table self) ''behavior_session_id'' sid = Inr row"
    and "shape0 row = 1"
    and "squeeze row = Inr sq"
    and "obj_getitem sq (file_id_column (cache self)) = Inr (Val fc)"
  shows "(\<forall>f. fc = PNum f \<longrightarrow>
            get_behavior_session from_nwb_path self sid
            = bind_exn (download_data (cache self) (py_str f)) from_nwb_path)
    \<and> (\<forall>s. fc = PStr s \<longrightarrow>
            get_behavior_session from_nwb_path self sid
            = bind_exn (int_of_text s) (\<lambda>f.
                bind_exn (download_data (cache self) (py_str f)) from_nwb_path))
    \<and> (\<forall>e es found sqf fe. fc = PNull \<longrightarrow>
          obj_getattr sq ''ophys_experiment_id'' = Inr (PList (PNum e # es)) \<longrightarrow>
          query_eq (experiment_table self) ''ophys_experiment_id'' e = Inr found \<longrightarrow>
          squeeze found = Inr sqf \<longrightarrow>
          obj_getitem sqf (file_id_column (cache self)) = Inr (Val fe) \<longrightarrow>
          (\<forall>g. fe = PNum g \<longrightarrow> get_behavior_session from_nwb_path self sid
                 = bind_exn (download_data (cache self) (py_str g)) from_nwb_path)
          \<and> (\<forall>s. fe = PStr s \<longrightarrow> get_behavior_session from_nwb_path self sid
                 = bind_exn (int_of_text s) (\<lambda>g.
                     bind_exn (download_data (cache self) (py_str g)) from_nwb_path))
          \<and> (fe = PNull \<longrightarrow> get_behavior_session from_nwb_path self sid = Inl ValueError))"
  using assms
  by (simp add: get_behavior_session_def bind_exn_def isna_def first_listed_def query_ref_def
      py_int_def)

lemma session_shape_mismatch:
  "query_eq (behavior_only_session_table self) ''behavior_session_id'' sid = Inr row \<Longrightarrow>
   shape0 row \<noteq> 1 \<Longrightarrow> get_behavior_session from_nwb_path self sid = Inl RuntimeError"
  by (simp add: get_behavior_session_def bind_exn_def)

lemma experiment_shape_mismatch:
  "query_eq (experiment_table self) ''ophys_experiment_id'' eid = Inr row \<Longrightarrow>
   shape0 row \<noteq> 1 \<Longrightarrow>
   get_behavior_ophys_experiment from_nwb_path self eid = Inl RuntimeError"
  by (simp add: get_behavior_ophys_experiment_def bind_exn_def)

lemma example_tables_rectangular:
  "rectangular (behavior_only_session_table example_api)"
  "rectangular (experiment_table example_api)"
  "length (df_columns (behavior_only_session_table example_api)) \<noteq> 1"
  "length (df_columns (experiment_table example_api)) \<noteq> 1"
  by (simp_all add: rectangular_def example_api_def behavior_session_table_ex_def
      ophys_experiment_csv_def)

lemma example_columns:
  "map_of (df_columns (behavior_only_session_table example_api)) ''behavior_session_id''
   = Some [PNum 870987812, PNum 951410079, PNum 951520319]"
  "map_of (df_columns (behavior_only_session_table example_api))
     (file_id_column (cache example_api)) = Some [PNum 1085368458, PNull, PNull]"
  "map_of (df_columns (behavior_only_session_table example_api)) ''ophys_experiment_id''
   = Some [PNull, PList [PNum 951980471, PNum 951980473], PList [PNum 951980475]]"
  "map_of (df_columns (experiment_table example_api)) ''ophys_experiment_id''
   = Some [PNum 951980471, PNum 951980473, PNum 951980475]"
  "map_of (df_columns (experiment_table example_api)) (file_id_column (cache example_api))
   = Some [PNum 1085394308, PNum 1085400876, PNull]"
  by (simp_all add: example_api_def example_cache_def behavior_session_table_ex_def
      ophys_experiment_csv_def)

lemma example_rows_followed:
  "row_followed (row_at (behavior_only_session_table example_api) 0)"
  "row_followed (row_at (behavior_only_session_table example_api) 1)"
  "row_followed (row_at (behavior_only_session_table example_api) 2)"
  "row_followed (row_at (experiment_table example_api) 0)"
  "row_followed (row_at (experiment_table example_api) 2)"
  by code_simp+

lemma text_id_table:
  "rectangular (behavior_only_session_table text_id_api)"
  "length (df_columns (behavior_only_session_table text_id_api)) \<noteq> 1"
  "map_of (df_columns (behavior_only_session_table text_id_api)) ''behavior_session_id''
   = Some [PNum 870987812, PNum 870987813]"
  "map_of (df_columns (behavior_only_session_table text_id_api))
     (file_id_column (cache text_id_api))
   = Some [PStr ''nwb-1085368458'', PStr ''1085368459'']"
  "row_followed (row_at (behavior_only_session_table text_id_api) 1)"
  by (simp_all add: rectangular_def text_id_api_def example_cache_def row_followed_def
      row_at_def is_object_def)

lemma only_at:
  "b \<noteq> x \<Longrightarrow> c \<noteq> x \<Longrightarrow> \<forall>j < length [a, b, c]. j \<noteq> 0 \<longrightarrow> [a, b, c] ! j \<noteq> x"
  "a \<noteq> x \<Longrightarrow> c \<noteq> x \<Longrightarrow> \<forall>j < length [a, b, c]. j \<noteq> 1 \<longrightarrow> [a, b, c] ! j \<noteq> x"
  "a \<noteq> x \<Longrightarrow> b \<noteq> x \<Longrightarrow> \<forall>j < length [a, b, c]. j \<noteq> 2 \<longrightarrow> [a, b, c] ! j \<noteq> x"
  by (auto simp add: less_Suc_eq nth_Cons')

text \<open>
  Claim C1 as stated fails for a file identifier that is not a number. The session
  870987812 is the only row with its identifier and its file-id cell is not null: it is
  the text \<^verbatim>\<open>nwb-1085368458\<close>, for which the cache would return a path. The code passes
  \<^verbatim>\<open>str(int(...))\<close> of the cell, and \<^verbatim>\<open>int\<close> raises \<^verbatim>\<open>ValueError\<close> on this text: the call
  raises and the file identifier of the row is not passed to \<^verbatim>\<open>download_data\<close>.
\<close>

theorem get_behavior_session_text_id_counterexample:
  "bind_exn (query_eq (behavior_only_session_table text_id_api) ''behavior_session_id''
      870987812) (\<lambda>row. Inr (shape0 row)) = Inr 1
   \<and> bind_exn (query_eq (behavior_only_session_table text_id_api) ''behavior_session_id''
        870987812) (\<lambda>row. bind_exn (squeeze row) (\<lambda>row.
          obj_getitem row (file_id_column (cache text_id_api))))
     = Inr (Val (PStr ''nwb-1085368458''))
   \<and> isna (Val (PStr ''nwb-1085368458'')) = Inr False
   \<and> download_data (cache text_id_api) ''nwb-1085368458''
     = Inr ''/cache/nwb-1085368458.nwb''
   \<and> get_behavior_session Inr text_id_api 870987812 = (Inl ValueError :: exn + string)"
  by (intro conjI; code_simp)

text \<open>
  Claim C1, amended. Let row \<open>i\<close> be the only row of the behavior session table whose
  identifier is the one asked for. What is passed to \<^verbatim>\<open>download_data\<close> is
  \<^verbatim>\<open>str(int(...))\<close> of a file-id cell. If the cell of row \<open>i\<close> is a number, that number
  in decimal digits is passed; if it is a text, the integer that \<^verbatim>\<open>int\<close> reads in it is
  passed, and when \<^verbatim>\<open>int\<close> rejects the text the call raises \<^verbatim>\<open>ValueError\<close> and passes
  nothing. If the cell is null and the row lists the experiments \<open>e\<close>, ..., and row \<open>k\<close>
  is the only row of the experiment table with the identifier \<open>e\<close>, the first one listed,
  then it is the file-id cell of row \<open>k\<close> that is passed in the same way. The indirection
  is followed once: when the file id of row \<open>k\<close> is null too, the call raises
  \<^verbatim>\<open>ValueError\<close>. Numbers that pandas may round are left out: the two identifiers looked
  up are taken to be \<open>float64_exact\<close>, and the rows \<open>i\<close> and \<open>k\<close> to be \<open>row_followed\<close>, which
  rules out a row of numbers and NaN only with a number above \<open>2 ^ 53\<close>.
\<close>

theorem get_behavior_session_file_id:
  assumes "rectangular (behavior_only_session_table self)"
    and "length (df_columns (behavior_only_session_table self)) \<noteq> 1"
    and "map_of (df_columns (behavior_only_session_table self)) ''behavior_session_id''
         = Some ids"
    and "i < length ids" and "ids ! i = PNum sid" and "float64_exact sid"
    and "\<forall>j < length ids. j \<noteq> i \<longrightarrow> ids ! j \<noteq> PNum sid"
    and "row_followed (row_at (behavior_only_session_table self) i)"
    and "map_of (df_columns (behavior_only_session_table self)) (file_id_column (cache self))
         = Some file_ids"
  shows "(\<forall>f. file_ids ! i = PNum f \<longrightarrow>
            get_behavior_session from_nwb_path self sid
            = bind_exn (download_data (cache self) (py_str f)) from_nwb_path)
    \<and> (\<forall>s. file_ids ! i = PStr s \<longrightarrow>
            get_behavior_session from_nwb_path self sid
            = bind_exn (int_of_text s) (\<lambda>f.
                bind_exn (download_data (cache self) (py_str f)) from_nwb_path))
    \<and> (\<forall>listed e es eids k efile_ids.
          file_ids ! i = PNull \<longrightarrow>
          map_of (df_columns (behavior_only_session_table self)) ''ophys_experiment_id''
            = Some listed \<longrightarrow>
          listed ! i = PList (PNum e # es) \<longrightarrow>
          rectangular (experiment_table self) \<longrightarrow>
          length (df_columns (experiment_table self)) \<noteq> 1 \<longrightarrow>
          map_of (df_columns (experiment_table self)) ''ophys_experiment_id'' = Some eids \<longrightarrow>
          k < length eids \<longrightarrow> eids ! k = PNum e \<longrightarrow> float64_exact e \<longrightarrow>
          (\<forall>j < length eids. j \<noteq> k \<longrightarrow> eids ! j \<noteq> PNum e) \<longrightarrow>
          row_followed (row_at (experiment_table self) k) \<longrightarrow>
          map_of (df_columns (experiment_table self)) (file_id_column (cache self))
            = Some efile_ids \<longrightarrow>
          (\<forall>g. efile_ids ! k = PNum g \<longrightarrow>
             get_behavior_session from_nwb_path self sid
             = bind_exn (download_data (cache self) (py_str g)) from_nwb_path)
          \<and> (\<forall>s. efile_ids ! k = PStr s \<longrightarrow>
             get_behavior_session from_nwb_path self sid
             = bind_exn (int_of_text s) (\<lambda>g.
                 bind_exn (download_data (cache self) (py_str g)) from_nwb_path))
          \<and> (efile_ids ! k = PNull \<longrightarrow>
             get_behavior_session from_nwb_path self sid = Inl ValueError))"
proof -
  let ?bt = "behavior_only_session_table self"
  let ?et = "experiment_table self"
  let ?col = "file_id_column (cache self)"
  from query_eq_row [OF assms(1-8)] obtain row sq where
    q: "query_eq ?bt ''behavior_session_id'' sid = Inr row" and s: "shape0 row = 1"
    and sq: "squeeze row = Inr sq"
    and cells: "\<And>name cells. map_of (df_columns ?bt) name = Some cells \<Longrightarrow>
          obj_getitem sq name = Inr (Val (cells ! i))
          \<and> obj_getattr sq name = Inr (cells ! i)"
    by blast
  from cells [OF assms(9)]
  have fc: "obj_getitem sq ?col = Inr (Val (file_ids ! i))" by simp
  note paths = get_behavior_session_paths [OF q s sq fc, of from_nwb_path]
  have number: "\<forall>f. file_ids ! i = PNum f \<longrightarrow>
            get_behavior_session from_nwb_path self sid
            = bind_exn (download_data (cache self) (py_str f)) from_nwb_path"
    using paths by blast
  have textual: "\<forall>s. file_ids ! i = PStr s \<longrightarrow>
            get_behavior_session from_nwb_path self sid
            = bind_exn (int_of_text s) (\<lambda>f.
                bind_exn (download_data (cache self) (py_str f)) from_nwb_path)"
    using paths by blast
  have indirect: "(\<forall>g. efile_ids ! k = PNum g \<longrightarrow>
             get_behavior_session from_nwb_path self sid
             = bind_exn (download_data (cache self) (py_str g)) from_nwb_path)
          \<and> (\<forall>s. efile_ids ! k = PStr s \<longrightarrow>
             get_behavior_session from_nwb_path self sid
             = bind_exn (int_of_text s) (\<lambda>g.
                 bind_exn (download_data (cache self) (py_str g)) from_nwb_path))
          \<and> (efile_ids ! k = PNull \<longrightarrow>
             get_behavior_session from_nwb_path self sid = Inl ValueError)"
    if null: "file_ids ! i = PNull"
      and l: "map_of (df_columns ?bt) ''ophys_experiment_id'' = Some listed"
        "listed ! i = PList (PNum e # es)"
      and et: "rectangular ?et" "length (df_columns ?et) \<noteq> 1"
        "map_of (df_columns ?et) ''ophys_experiment_id'' = Some eids"
        "k < length eids" "eids ! k = PNum e" "float64_exact e"
        "\<forall>j < length eids. j \<noteq> k \<longrightarrow> eids ! j \<noteq> PNum e"
        "row_followed (row_at ?et k)"
      and ef: "map_of (df_columns ?et) ?col = Some efile_ids"
    for listed e es eids k efile_ids
  proof -
    from cells [OF l(1)] l(2)
    have a: "obj_getattr sq ''ophys_experiment_id'' = Inr (PList (PNum e # es))"
      by simp
    from query_eq_row [OF et] obtain found sqf where
      q': "query_eq ?et ''ophys_experiment_id'' e = Inr found"
      and sq': "squeeze found = Inr sqf"
      and cells': "\<And>name cells. map_of (df_columns ?et) name = Some cells \<Longrightarrow>
          obj_getitem sqf name = Inr (Val (cells ! k))
          \<and> obj_getattr sqf name = Inr (cells ! k)"
      by blast
    from cells' [OF ef]
    have fe: "obj_getitem sqf ?col = Inr (Val (efile_ids ! k))" by simp
    from paths null a q' sq' fe show ?thesis by blast
  qed
  from number textual indirect show ?thesis by blast
qed

text \<open>
  The example tables: a session with its own file, a session resolved through its first
  listed experiment, a session whose first listed experiment has no file, and a session
  whose file identifier is a text of digits.
\<close>

theorem get_behavior_session_file_id_witness:
  "get_behavior_session Inr example_api 870987812 = Inr ''/cache/1085368458.nwb''
   \<and> get_behavior_session Inr example_api 951410079 = Inr ''/cache/1085394308.nwb''
   \<and> get_behavior_session Inr example_api 951520319 = (Inl ValueError :: exn + string)
   \<and> get_behavior_session Inr text_id_api 870987813 = Inr ''/cache/1085368459.nwb''"
proof -
  let ?ids = "[PNum 870987812, PNum 951410079, PNum 951520319]"
  let ?eids = "[PNum 951980471, PNum 951980473, PNum 951980475]"
  have d: "download_data (cache example_api) = (\<lambda>file_id. Inr (''/cache/'' @ file_id @ ''.nwb''))"
    "download_data (cache text_id_api) = (\<lambda>file_id. Inr (''/cache/'' @ file_id @ ''.nwb''))"
    by (simp_all add: example_api_def text_id_api_def example_cache_def)
  \<comment> \<open>a session with a file of its own\<close>
  have u0: "\<forall>j < length ?ids. j \<noteq> 0 \<longrightarrow> ?ids ! j \<noteq> PNum 870987812"
    by (rule only_at(1)) simp_all
  from get_behavior_session_file_id [OF example_tables_rectangular(1,3) example_columns(1) _ _ _ u0
      example_rows_followed(1) example_columns(2), of Inr]
  have r1: "get_behavior_session Inr example_api 870987812 = Inr ''/cache/1085368458.nwb''"
    by (simp add: d bind_exn_def py_str_examples float64_exact_def)
  \<comment> \<open>a session whose file is that of its first listed experiment\<close>
  have u1: "\<forall>j < length ?ids. j \<noteq> 1 \<longrightarrow> ?ids ! j \<noteq> PNum 951410079"
    by (rule only_at(2)) simp_all
  have k0: "\<forall>j < length ?eids. j \<noteq> 0 \<longrightarrow> ?eids ! j \<noteq> PNum 951980471"
    by (rule only_at(1)) simp_all
  from get_behavior_session_file_id [OF example_tables_rectangular(1,3) example_columns(1) _ _ _ u1
      example_rows_followed(2) example_columns(2), of Inr]
  have "\<forall>listed e es eids k efile_ids.
          [PNum 1085368458, PNull, PNull] ! 1 = PNull \<longrightarrow>
          map_of (df_columns (behavior_only_session_table example_api)) ''ophys_experiment_id''
            = Some listed \<longrightarrow>
          listed ! 1 = PList (PNum e # es) \<longrightarrow>
          rectangular (experiment_table example_api) \<longrightarrow>
          length (df_columns (experiment_table example_api)) \<noteq> 1 \<longrightarrow>
          map_of (df_columns (experiment_table example_api)) ''ophys_experiment_id''
            = Some eids \<longrightarrow>
          k < length eids \<longrightarrow> eids ! k = PNum e \<longrightarrow> float64_exact e \<longrightarrow>
          (\<forall>j < length eids. j \<noteq> k \<longrightarrow> eids ! j \<noteq> PNum e) \<longrightarrow>
          row_followed (row_at (experiment_table example_api) k) \<longrightarrow>
          map_of (df_columns (experiment_table example_api))
            (file_id_column (cache example_api)) = Some efile_ids \<longrightarrow>
          (\<forall>g. efile_ids ! k = PNum g \<longrightarrow>
             get_behavior_session Inr example_api 951410079
             = bind_exn (download_data (cache example_api) (py_str g)) Inr)
          \<and> (\<forall>s. efile_ids ! k = PStr s \<longrightarrow>
             get_behavior_session Inr example_api 951410079
             = bind_exn (int_of_text s) (\<lambda>g.
                 bind_exn (download_data (cache example_api) (py_str g)) Inr))
          \<and> (efile_ids ! k = PNull \<longrightarrow>
             get_behavior_session Inr example_api 951410079 = (Inl ValueError :: exn + string))"
    by (simp add: float64_exact_def)
  from this [rule_format, of "[PNull, PList [PNum 951980471, PNum 951980473],
        PList [PNum 951980475]]" 951980471 "[PNum 951980473]" ?eids 0
      "[PNum 1085394308, PNum 1085400876, PNull]",
      OF _ example_columns(3) _ example_tables_rectangular(2,4) example_columns(4) _ _ _
        k0 [rule_format] example_rows_followed(4) example_columns(5)]
  have r2: "get_behavior_session Inr example_api 951410079 = Inr ''/cache/1085394308.nwb''"
    by (simp add: d bind_exn_def py_str_examples float64_exact_def)
  \<comment> \<open>a session whose first listed experiment has no file either\<close>
  have u2: "\<forall>j < length ?ids. j \<noteq> 2 \<longrightarrow> ?ids ! j \<noteq> PNum 951520319"
    by (rule only_at(3)) simp_all
  have k2: "\<forall>j < length ?eids. j \<noteq> 2 \<longrightarrow> ?eids ! j \<noteq> PNum 951980475"
    by (rule only_at(3)) simp_all
  from get_behavior_session_file_id [OF example_tables_rectangular(1,3) example_columns(1) _ _ _ u2
      example_rows_followed(3) example_columns(2), of Inr]
  have "\<forall>listed e es eids k efile_ids.
          [PNum 1085368458, PNull, PNull] ! 2 = PNull \<longrightarrow>
          map_of (df_columns (behavior_only_session_table example_api)) ''ophys_experiment_id''
            = Some listed \<longrightarrow>
          listed ! 2 = PList (PNum e # es) \<longrightarrow>
          rectangular (experiment_table example_api) \<longrightarrow>
          length (df_columns (experiment_table example_api)) \<noteq> 1 \<longrightarrow>
          map_of (df_columns (experiment_table example_api)) ''ophys_experiment_id''
            = Some eids \<longrightarrow>
          k < length eids \<longrightarrow> eids ! k = PNum e \<longrightarrow> float64_exact e \<longrightarrow>
          (\<forall>j < length eids. j \<noteq> k \<longrightarrow> eids ! j \<noteq> PNum e) \<longrightarrow>
          row_followed (row_at (experiment_table example_api) k) \<longrightarrow>
          map_of (df_columns (experiment_table example_api))
            (file_id_column (cache example_api)) = Some efile_ids \<longrightarrow>
          (\<forall>g. efile_ids ! k = PNum g \<longrightarrow>
             get_behavior_session Inr example_api 951520319
             = bind_exn (download_data (cache example_api) (py_str g)) Inr)
          \<and> (\<forall>s. efile_ids ! k = PStr s \<longrightarrow>
             get_behavior_session Inr example_api 951520319
             = bind_exn (int_of_text s) (\<lambda>g.
                 bind_exn (download_data (cache example_api) (py_str g)) Inr))
          \<and> (efile_ids ! k = PNull \<longrightarrow>
             get_behavior_session Inr example_api 951520319 = (Inl ValueError :: exn + string))"
    by (simp add: float64_exact_def)
  from this [rule_format, of "[PNull, PList [PNum 951980471, PNum 951980473],
        PList [PNum 951980475]]" 951980475 "[]" ?eids 2
      "[PNum 1085394308, PNum 1085400876, PNull]",
      OF _ example_columns(3) _ example_tables_rectangular(2,4) example_columns(4) _ _ _
        k2 [rule_format] example_rows_followed(5) example_columns(5)]
  have r3: "get_behavior_session Inr example_api 951520319 = (Inl ValueError :: exn + string)"
    by (simp add: float64_exact_def)
  \<comment> \<open>a session whose file identifier is a text of digits\<close>
  have t1: "\<forall>j < length [PNum 870987812, PNum 870987813]. j \<noteq> 1 \<longrightarrow>
      [PNum 870987812, PNum 870987813] ! j \<noteq> PNum 870987813"
    by (auto simp add: less_Suc_eq nth_Cons')
  from get_behavior_session_file_id [OF text_id_table(1,2,3) _ _ _ t1 text_id_table(5,4), of Inr]
  have r4: "get_behavior_session Inr text_id_api 870987813 = Inr ''/cache/1085368459.nwb''"
    by (simp add: d bind_exn_def py_str_examples int_of_text_examples float64_exact_def)
  from r1 r2 r3 r4 show ?thesis by simp
qed

text \<open>
  Claim C3 as stated fails: the two cases do not raise two distinct error types. With no
  matching row and with two matching rows, the lookup of a session and the lookup of an
  experiment both raise \<^verbatim>\<open>RuntimeError\<close>.
\<close>

theorem lookup_not_unique_counterexample:
  "bind_exn (query_eq (behavior_only_session_table duplicate_api) ''behavior_session_id'' 7)
     (\<lambda>row. Inr (shape0 row)) = Inr 0
   \<and> get_behavior_session Inr duplicate_api 7 = (Inl RuntimeError :: exn + string)
   \<and> bind_exn (query_eq (behavior_only_session_table duplicate_api) ''behavior_session_id''
        951410079) (\<lambda>row. Inr (shape0 row)) = Inr 2
   \<and> get_behavior_session Inr duplicate_api 951410079 = (Inl RuntimeError :: exn + string)
   \<and> bind_exn (query_eq (experiment_table duplicate_api) ''ophys_experiment_id'' 7)
        (\<lambda>row. Inr (shape0 row)) = Inr 0
   \<and> get_behavior_ophys_experiment Inr duplicate_api 7 = (Inl RuntimeError :: exn + string)
   \<and> bind_exn (query_eq (experiment_table duplicate_api) ''ophys_experiment_id'' 951980471)
        (\<lambda>row. Inr (shape0 row)) = Inr 2
   \<and> get_behavior_ophys_experiment Inr duplicate_api 951980471
       = (Inl RuntimeError :: exn + string)"
  by (intro conjI; code_simp)

text \<open>
  Claim C3, amended. It covers the two lookups that test the number of rows found: that
  of a session by \<^verbatim>\<open>get_behavior_session\<close> in the behavior session table, and that of an
  experiment by \<^verbatim>\<open>get_behavior_ophys_experiment\<close> in the experiment table. For each of
  them any number of rows with the identifier other than one, none as well as several,
  raises \<^verbatim>\<open>RuntimeError\<close>: several matches are an error, never a silent choice of one
  row. The lookup of the first listed experiment inside \<^verbatim>\<open>get_behavior_session\<close> has no
  such test and is left out: nothing is stated here about the rows it finds. The
  identifier is taken to be \<open>float64_exact\<close>, so that the rows of the table with that
  identifier are the rows that the query finds whatever the dtype of the column.
\<close>

theorem lookup_not_unique:
  "(rectangular (behavior_only_session_table self) \<longrightarrow>
      map_of (df_columns (behavior_only_session_table self)) ''behavior_session_id''
        = Some ids \<longrightarrow>
      float64_exact sid \<longrightarrow>
      length (filter (\<lambda>x. x = PNum sid) ids) \<noteq> 1 \<longrightarrow>
      get_behavior_session from_nwb_path self sid = Inl RuntimeError)
   \<and> (rectangular (experiment_table self) \<longrightarrow>
      map_of (df_columns (experiment_table self)) ''ophys_experiment_id'' = Some eids \<longrightarrow>
      float64_exact eid \<longrightarrow>
      length (filter (\<lambda>x. x = PNum eid) eids) \<noteq> 1 \<longrightarrow>
      get_behavior_ophys_experiment from_nwb_path' self eid = Inl RuntimeError)"
proof (intro conjI impI)
  assume "rectangular (behavior_only_session_table self)"
    and "map_of (df_columns (behavior_only_session_table self)) ''behavior_session_id''
        = Some ids"
    and "float64_exact sid"
    and n: "length (filter (\<lambda>x. x = PNum sid) ids) \<noteq> 1"
  from query_eq_count [OF this(1,2,3)] n obtain row where
    "query_eq (behavior_only_session_table self) ''behavior_session_id'' sid = Inr row"
    "shape0 row \<noteq> 1" by auto
  then show "get_behavior_session from_nwb_path self sid = Inl RuntimeError"
    by (rule session_shape_mismatch)
next
  assume "rectangular (experiment_table self)"
    and "map_of (df_columns (experiment_table self)) ''ophys_experiment_id'' = Some eids"
    and "float64_exact eid"
    and n: "length (filter (\<lambda>x. x = PNum eid) eids) \<noteq> 1"
  from query_eq_count [OF this(1,2,3)] n obtain row where
    "query_eq (experiment_table self) ''ophys_experiment_id'' eid = Inr row"
    "shape0 row \<noteq> 1" by auto
  then show "get_behavior_ophys_experiment from_nwb_path' self eid = Inl RuntimeError"
    by (rule experiment_shape_mismatch)
qed

text \<open>
  The malformed tables: a session identifier that matches two rows, and an experiment
  identifier that matches none.
\<close>

theorem lookup_not_unique_witness:
  "get_behavior_session Inr duplicate_api 951410079 = (Inl RuntimeError :: exn + string)
   \<and> get_behavior_ophys_experiment Inr duplicate_api 7 = (Inl RuntimeError :: exn + string)"
proof -
  have r: "rectangular (behavior_only_session_table duplicate_api)"
    "rectangular (experiment_table duplicate_api)"
    by (simp_all add: rectangular_def duplicate_api_def)
  have c: "map_of (df_columns (behavior_only_session_table duplicate_api))
      ''behavior_session_id'' = Some [PNum 951410079, PNum 951410079]"
    "map_of (df_columns (experiment_table duplicate_api)) ''ophys_experiment_id''
      = Some [PNum 951980471, PNum 951980471]"
    by (simp_all add: duplicate_api_def)
  from lookup_not_unique [of duplicate_api "[PNum 951410079, PNum 951410079]" 951410079
      Inr "[PNum 951980471, PNum 951980471]" 7 Inr] r c
  show ?thesis by (simp add: float64_exact_def)
qed

section \<open>Properties of the local artifact cache\<close>

lemma download_install_path:
  assumes "download_install m fetch bad st file_id = (Inr p, st')"
  shows "\<exists>e. entries st' file_id = Some e \<and> entry_path e = p \<and> verified m st' e
    \<and> downloads st' = Suc (downloads st)"
proof -
  let ?e = "\<lparr>entry_path = artifact_path m file_id, entry_digest = artifact_digest m file_id\<rparr>"
  from assms obtain content where f: "fetch file_id = Some content"
    and g: "digest m content = artifact_digest m file_id"
    by (auto simp add: download_install_def Let_def split: option.splits if_splits)
  from assms f g have p: "p = artifact_path m file_id"
    and st': "st' = st\<lparr>downloads := Suc (downloads st),
        entries := (entries st)(file_id \<mapsto> ?e),
        files := (files st)(artifact_path m file_id \<mapsto> content)\<rparr>"
    by (auto simp add: download_install_def Let_def)
  from st' have "entries st' file_id = Some ?e" by simp
  moreover from p have "entry_path ?e = p" by simp
  moreover from st' g have "verified m st' ?e" by (simp add: verified_def)
  moreover from st' have "downloads st' = Suc (downloads st)" by simp
  ultimately show ?thesis by blast
qed

lemma cache_get_hit:
  "entries st file_id = Some e \<Longrightarrow> verified m st e \<Longrightarrow>
   cache_get m fetch st file_id = (Inr (entry_path e), st)"
  by (simp add: cache_get_def)

lemma cache_get_path:
  assumes "cache_get m fetch st file_id = (Inr p, st')"
  shows "\<exists>e. entries st' file_id = Some e \<and> entry_path e = p \<and> verified m st' e
    \<and> downloads st' \<le> Suc (downloads st)"
proof (cases "entries st file_id")
  case None
  with assms have "download_install m fetch DownloadError st file_id = (Inr p, st')"
    by (simp add: cache_get_def)
  from download_install_path [OF this] show ?thesis by auto
next
  case (Some e)
  show ?thesis
  proof (cases "verified m st e")
    case True
    with Some assms show ?thesis by (auto simp add: cache_get_def)
  next
    case False
    with Some assms
    have "download_install m fetch CorruptCacheError
            (st\<lparr>entries := (entries st)(file_id := None)\<rparr>) file_id = (Inr p, st')"
      by (simp add: cache_get_def)
    from download_install_path [OF this] show ?thesis by auto
  qed
qed

lemma cache_get_downloads:
  "downloads (snd (cache_get m fetch st file_id)) \<le> Suc (downloads st)"
  by (simp add: cache_get_def download_install_def Let_def split: option.splits)

text \<open>
  Claim C8. When a call of \<open>cache_get\<close> returns a path, a second call for the same
  identifier, whatever the object store then answers, returns the same path and leaves
  the state as it is, the count of downloads included; the two calls together have made
  at most one download. A verified entry is answered from the cache with the state
  unchanged, and no single call makes more than one download.
\<close>

theorem cache_get_twice:
  "(cache_get m fetch st file_id = (Inr p, st') \<longrightarrow>
      cache_get m fetch' st' file_id = (Inr p, st')
      \<and> downloads st' \<le> Suc (downloads st))
   \<and> (entries st file_id = Some e \<longrightarrow> verified m st e \<longrightarrow>
      cache_get m fetch st file_id = (Inr (entry_path e), st))
   \<and> downloads (snd (cache_get m fetch st file_id)) \<le> Suc (downloads st)"
proof (intro conjI impI)
  show "downloads (snd (cache_get m fetch st file_id)) \<le> Suc (downloads st)"
    by (rule cache_get_downloads)
next
  assume a: "cache_get m fetch st file_id = (Inr p, st')"
  from cache_get_path [OF a] obtain e where e: "entries st' file_id = Some e"
    "entry_path e = p" "verified m st' e" and d: "downloads st' \<le> Suc (downloads st)"
    by blast
  from cache_get_hit [OF e(1) e(3)] e(2)
  show "cache_get m fetch' st' file_id = (Inr p, st')" by simp
  from d show "downloads st' \<le> Suc (downloads st)" .
next
  assume "entries st file_id = Some e" "verified m st e"
  then show "cache_get m fetch st file_id = (Inr (entry_path e), st)"
    by (rule cache_get_hit)
qed

text \<open>
  An empty cache: the first call downloads the file, the second call returns the same
  path while the object store is unreachable.
\<close>

theorem cache_get_twice_witness:
  "cache_get example_manifest (\<lambda>file_id. Some ''NWB bytes'') empty_cache ''1085368458''
     = (Inr ''/cache/1085368458.nwb'',
        empty_cache\<lparr>downloads := 1,
          entries := [''1085368458'' \<mapsto>
            \<lparr>entry_path = ''/cache/1085368458.nwb'', entry_digest = 9\<rparr>],
          files := [''/cache/1085368458.nwb'' \<mapsto> ''NWB bytes'']\<rparr>)
   \<and> cache_get example_manifest (\<lambda>file_id. None)
       (empty_cache\<lparr>downloads := 1,
          entries := [''1085368458'' \<mapsto>
            \<lparr>entry_path = ''/cache/1085368458.nwb'', entry_digest = 9\<rparr>],
          files := [''/cache/1085368458.nwb'' \<mapsto> ''NWB bytes'']\<rparr>) ''1085368458''
     = (Inr ''/cache/1085368458.nwb'',
        empty_cache\<lparr>downloads := 1,
          entries := [''1085368458'' \<mapsto>
            \<lparr>entry_path = ''/cache/1085368458.nwb'', entry_digest = 9\<rparr>],
          files := [''/cache/1085368458.nwb'' \<mapsto> ''NWB bytes'']\<rparr>)"
proof -
  let ?st = "empty_cache\<lparr>downloads := 1,
          entries := [''1085368458'' \<mapsto>
            \<lparr>entry_path = ''/cache/1085368458.nwb'', entry_digest = 9\<rparr>],
          files := [''/cache/1085368458.nwb'' \<mapsto> ''NWB bytes'']\<rparr>"
  have first: "cache_get example_manifest (\<lambda>file_id. Some ''NWB bytes'') empty_cache
      ''1085368458'' = (Inr ''/cache/1085368458.nwb'', ?st)"
    by (simp add: cache_get_def download_install_def example_manifest_def empty_cache_def
        eval_nat_numeral)
  from cache_get_twice [of example_manifest "\<lambda>file_id. Some ''NWB bytes''" empty_cache
      "''1085368458''" "''/cache/1085368458.nwb''" ?st "\<lambda>file_id. None"] first
  have "cache_get example_manifest (\<lambda>file_id. None) ?st ''1085368458''
      = (Inr ''/cache/1085368458.nwb'', ?st)"
    by blast
  with first show ?thesis by simp
qed

section \<open>Properties of project tables\<close>

lemma duplicated_from_length: "length (duplicated_from seen xs) = length xs"
  by (induction xs arbitrary: seen) auto















end
